theory Spec2Isabelle
  imports Complex_Main "HOL-Library.Sublist"
begin

section \<open>Python values, strings and exceptions\<close>

text \<open>
  Plans, steps, tool data and model replies are Python dictionaries, lists and scalars as
  \<^verbatim>\<open>json.loads\<close> builds them. A dictionary is an association list read from the
  left, with distinct keys. An integer is Python's unbounded \<^verbatim>\<open>int\<close>; a float is given
  by the rational number it denotes (\<^verbatim>\<open>nan\<close> and the infinities are outside the model).
\<close>

datatype json =
    JNull
  | JBool bool
  | JInt int
  | JFloat rat
  | JStr string
  | JList "json list"
  | JDict "(string \<times> json) list"

fun truthy :: "json \<Rightarrow> bool" where
  "truthy JNull = False"
| "truthy (JBool b) = b"
| "truthy (JInt n) = (n \<noteq> 0)"
| "truthy (JFloat r) = (r \<noteq> 0)"
| "truthy (JStr s) = (s \<noteq> [])"
| "truthy (JList xs) = (xs \<noteq> [])"
| "truthy (JDict kvs) = (kvs \<noteq> [])"

fun is_dict :: "json \<Rightarrow> bool" where
  "is_dict (JDict kvs) = True"
| "is_dict v = False"

fun is_list :: "json \<Rightarrow> bool" where
  "is_list (JList xs) = True"
| "is_list v = False"

fun py_type_name :: "json \<Rightarrow> string" where
  "py_type_name JNull = ''NoneType''"
| "py_type_name (JBool b) = ''bool''"
| "py_type_name (JInt n) = ''int''"
| "py_type_name (JFloat r) = ''float''"
| "py_type_name (JStr s) = ''str''"
| "py_type_name (JList xs) = ''list''"
| "py_type_name (JDict kvs) = ''dict''"

text \<open>
  Exceptions are the subclasses of \<^verbatim>\<open>Exception\<close>; the string is what \<^verbatim>\<open>str(e)\<close>
  returns. The three provider classes are the ones \<^verbatim>\<open>llm_client.py\<close> tests with
  \<^verbatim>\<open>isinstance\<close>, in the order it tests them; \<open>APIError\<close> carries its
  \<^verbatim>\<open>status_code\<close> when it has one.
\<close>

datatype exn_class =
    ValueError
  | TypeError
  | AttributeError
  | PlainException
  | RateLimitError
  | APIConnectionError
  | APIError "int option"
  | OtherException

datatype exn = Exn exn_class string

fun exn_class_of :: "exn \<Rightarrow> exn_class" where
  "exn_class_of (Exn c m) = c"

fun exn_str :: "exn \<Rightarrow> string" where
  "exn_str (Exn c m) = m"

text \<open>
  Strings are lists of characters. \<^verbatim>\<open>sub in s\<close> is the contiguous-sublist test;
  \<^verbatim>\<open>lower\<close>, \<^verbatim>\<open>upper\<close> and \<^verbatim>\<open>strip\<close> are given on ASCII.
\<close>

definition str_in :: "string \<Rightarrow> string \<Rightarrow> bool" where
  "str_in sub s = sublist sub s"

definition lower_char :: "char \<Rightarrow> char" where
  "lower_char c =
     (let n = (of_char c :: nat) in if 65 \<le> n \<and> n \<le> 90 then char_of (n + 32) else c)"

definition upper_char :: "char \<Rightarrow> char" where
  "upper_char c =
     (let n = (of_char c :: nat) in if 97 \<le> n \<and> n \<le> 122 then char_of (n - 32) else c)"

definition str_lower :: "string \<Rightarrow> string" where
  "str_lower s = map lower_char s"

definition str_upper :: "string \<Rightarrow> string" where
  "str_upper s = map upper_char s"

definition is_space :: "char \<Rightarrow> bool" where
  "is_space c = (let n = (of_char c :: nat) in n = 32 \<or> (9 \<le> n \<and> n \<le> 13) \<or> (28 \<le> n \<and> n \<le> 31))"

definition str_strip :: "string \<Rightarrow> string" where
  "str_strip s = rev (dropWhile is_space (rev (dropWhile is_space s)))"

text \<open>Dictionary access: \<^verbatim>\<open>d.get(k, default)\<close>, \<^verbatim>\<open>k in c\<close> and \<^verbatim>\<open>c[k]\<close> for a string key.\<close>

definition sq :: string where
  "sq = [CHR 0x27]"

fun py_get :: "json \<Rightarrow> string \<Rightarrow> json \<Rightarrow> exn + json" where
  "py_get (JDict kvs) k dflt = Inr (case map_of kvs k of None \<Rightarrow> dflt | Some v \<Rightarrow> v)"
| "py_get v k dflt =
     Inl (Exn AttributeError
       (sq @ py_type_name v @ sq @ '' object has no attribute '' @ sq @ ''get'' @ sq))"

fun key_in :: "string \<Rightarrow> json \<Rightarrow> exn + bool" where
  "key_in k (JDict kvs) = Inr (map_of kvs k \<noteq> None)"
| "key_in k (JList xs) = Inr (JStr k \<in> set xs)"
| "key_in k (JStr s) = Inr (str_in k s)"
| "key_in k v =
     Inl (Exn TypeError (''argument of type '' @ sq @ py_type_name v @ sq @ '' is not iterable''))"

fun py_item :: "json \<Rightarrow> string \<Rightarrow> exn + json" where
  "py_item (JDict kvs) k =
     (case map_of kvs k of
        None \<Rightarrow> Inl (Exn OtherException (sq @ k @ sq))
      | Some v \<Rightarrow> Inr v)"
| "py_item (JList xs) k =
     Inl (Exn TypeError ''list indices must be integers or slices, not str'')"
| "py_item (JStr s) k =
     Inl (Exn TypeError (''string indices must be integers, not '' @ sq @ ''str'' @ sq))"
| "py_item v k =
     Inl (Exn TypeError (sq @ py_type_name v @ sq @ '' object is not subscriptable''))"

text \<open>
  Numbers compare by value across \<^verbatim>\<open>bool\<close>, \<^verbatim>\<open>int\<close> and \<^verbatim>\<open>float\<close>; an order
  comparison of anything else with a number raises.
\<close>

fun py_num :: "json \<Rightarrow> rat option" where
  "py_num (JBool b) = Some (if b then 1 else 0)"
| "py_num (JInt n) = Some (of_int n)"
| "py_num (JFloat r) = Some r"
| "py_num v = None"

definition py_eq_int :: "json \<Rightarrow> int \<Rightarrow> bool" where
  "py_eq_int v k = (py_num v = Some (of_int k))"

definition py_lt_int :: "json \<Rightarrow> int \<Rightarrow> exn + bool" where
  "py_lt_int v k =
     (case py_num v of
        Some r \<Rightarrow> Inr (r < of_int k)
      | None \<Rightarrow> Inl (Exn TypeError
          (sq @ ''<'' @ sq @ '' not supported between instances of '' @ sq @ py_type_name v @ sq
             @ '' and '' @ sq @ ''int'' @ sq)))"

definition py_gt_int :: "json \<Rightarrow> int \<Rightarrow> exn + bool" where
  "py_gt_int v k =
     (case py_num v of
        Some r \<Rightarrow> Inr (r > of_int k)
      | None \<Rightarrow> Inl (Exn TypeError
          (sq @ ''>'' @ sq @ '' not supported between instances of '' @ sq @ py_type_name v @ sq
             @ '' and '' @ sq @ ''int'' @ sq)))"

text \<open>\<^verbatim>\<open>len(x)\<close> and \<^verbatim>\<open>for y in x\<close> on a value.\<close>

fun py_len :: "json \<Rightarrow> exn + nat" where
  "py_len (JList xs) = Inr (length xs)"
| "py_len (JStr s) = Inr (length s)"
| "py_len (JDict kvs) = Inr (length kvs)"
| "py_len v =
     Inl (Exn TypeError (''object of type '' @ sq @ py_type_name v @ sq @ '' has no len()''))"

fun py_iter :: "json \<Rightarrow> exn + json list" where
  "py_iter (JList xs) = Inr xs"
| "py_iter (JStr s) = Inr (map (\<lambda>c. JStr [c]) s)"
| "py_iter (JDict kvs) = Inr (map (\<lambda>kv. JStr (fst kv)) kvs)"
| "py_iter v =
     Inl (Exn TypeError (sq @ py_type_name v @ sq @ '' object is not iterable''))"

fun bind_exn :: "exn + 'a \<Rightarrow> ('a \<Rightarrow> exn + 'b) \<Rightarrow> exn + 'b" where
  "bind_exn (Inl e) f = Inl e"
| "bind_exn (Inr v) f = f v"

section \<open>The world: tool state and sleeps\<close>

text \<open>
  The tools and the model provider are outside the program: \<open>ext\<close> is their state, which
  every call may change. \<open>sleeps\<close> records the arguments of \<^verbatim>\<open>time.sleep\<close>, oldest
  first.
\<close>

record 's world =
  ext :: 's
  sleeps :: "rat list"

definition sleep :: "rat \<Rightarrow> 's world \<Rightarrow> 's world" where
  "sleep d w = w\<lparr>sleeps := sleeps w @ [d]\<rparr>"

section \<open>Executor: the retry wrapper\<close>

definition transient_keywords :: "string list" where
  "transient_keywords =
     [''timeout'', ''rate limit'', ''429'', ''503'', ''502'', ''connection'', ''network'']"

definition is_transient :: "exn \<Rightarrow> bool" where
  "is_transient e = list_ex (\<lambda>keyword. str_in keyword (str_lower (exn_str e))) transient_keywords"

function retry_loop ::
  "('s \<Rightarrow> (exn + 'a) \<times> 's) \<Rightarrow> int \<Rightarrow> rat \<Rightarrow> int \<Rightarrow> rat \<Rightarrow> exn option \<Rightarrow> 's world
     \<Rightarrow> (exn + 'a) \<times> 's world" where
  "retry_loop func max_retries backoff_factor attempt delay last_exception w =
     (if attempt < max_retries + 1 then
        (case func (ext w) of
           (Inr result, s') \<Rightarrow> (Inr result, w\<lparr>ext := s'\<rparr>)
         | (Inl e, s') \<Rightarrow>
             (if \<not> is_transient e \<or> attempt \<ge> max_retries then (Inl e, w\<lparr>ext := s'\<rparr>)
              else retry_loop func max_retries backoff_factor (attempt + 1)
                     (delay * backoff_factor) (Some e) (sleep delay (w\<lparr>ext := s'\<rparr>))))
      else
        (case last_exception of
           Some e \<Rightarrow> (Inl e, w)
         | None \<Rightarrow> (Inl (Exn PlainException ''Function failed with unknown error''), w)))"
  by pat_completeness auto
termination
  by (relation "measure (\<lambda>(func, max_retries, backoff_factor, attempt, delay, last_exception, w).
        nat (max_retries + 1 - attempt))") auto

declare retry_loop.simps [simp del]

definition retry_with_backoff ::
  "('s \<Rightarrow> (exn + 'a) \<times> 's) \<Rightarrow> int \<Rightarrow> rat \<Rightarrow> rat \<Rightarrow> 's world \<Rightarrow> (exn + 'a) \<times> 's world" where
  "retry_with_backoff func max_retries initial_delay backoff_factor w =
     retry_loop func max_retries backoff_factor 0 initial_delay None w"

section \<open>Executor: tools, steps and plans\<close>

text \<open>
  \<open>py_str\<close> is Python's \<^verbatim>\<open>str\<close> on values, which the f-strings of the source apply;
  it belongs to the language, so the functions below take it as a parameter.

  A tool is an object of the caller's; the executor only ever invokes one of six methods
  on it. \<open>tool_call\<close> names the method with its keyword arguments, and the tool answers
  with a value or raises, changing the outside state.
\<close>

datatype tool_call =
    SearchRepositories json json json
  | GetCurrentWeather json json
  | CompareWeather json json
  | GetSummary json json
  | SearchArticles json json
  | CompareTopics json

type_synonym 's tool = "tool_call \<Rightarrow> 's \<Rightarrow> (exn + json) \<times> 's"

type_synonym 's tools = "string \<Rightarrow> 's tool option"

definition raise :: "exn \<Rightarrow> 's \<Rightarrow> (exn + 'a) \<times> 's" where
  "raise e s = (Inl e, s)"

fun try_bind :: "exn + 'a \<Rightarrow> ('a \<Rightarrow> 's \<Rightarrow> (exn + 'b) \<times> 's) \<Rightarrow> 's \<Rightarrow> (exn + 'b) \<times> 's" where
  "try_bind (Inl e) f s = (Inl e, s)"
| "try_bind (Inr v) f s = f v s"

definition call_tool_method ::
  "(json \<Rightarrow> string) \<Rightarrow> 's tool \<Rightarrow> json \<Rightarrow> json \<Rightarrow> 's \<Rightarrow> (exn + json) \<times> 's" where
  "call_tool_method py_str tool tool_name parameters =
     (if tool_name = JStr ''github'' then
        try_bind (key_in ''query'' parameters) (\<lambda>has_query.
          if has_query then
            try_bind (py_item parameters ''query'') (\<lambda>query.
            try_bind (py_get parameters ''sort'' (JStr ''stars'')) (\<lambda>sort_key.
            try_bind (py_get parameters ''limit'' (JInt 5)) (\<lambda>limit.
              tool (SearchRepositories query sort_key limit))))
          else raise (Exn ValueError (''GitHub tool requires '' @ sq @ ''query'' @ sq @ '' parameter'')))
      else if tool_name = JStr ''weather'' then
        try_bind (key_in ''city'' parameters) (\<lambda>has_city.
          if has_city then
            try_bind (py_item parameters ''city'') (\<lambda>city.
            try_bind (py_get parameters ''units'' (JStr ''metric'')) (\<lambda>units.
              tool (GetCurrentWeather city units)))
          else
            try_bind (key_in ''cities'' parameters) (\<lambda>has_cities.
              if has_cities then
                try_bind (py_item parameters ''cities'') (\<lambda>cities.
                try_bind (py_get parameters ''units'' (JStr ''metric'')) (\<lambda>units.
                  tool (CompareWeather cities units)))
              else raise (Exn ValueError
                (''Weather tool requires '' @ sq @ ''city'' @ sq @ '' or '' @ sq @ ''cities'' @ sq
                   @ '' parameter''))))
      else if tool_name = JStr ''wikipedia'' then
        try_bind (key_in ''topic'' parameters) (\<lambda>has_topic.
          if has_topic then
            try_bind (py_item parameters ''topic'') (\<lambda>topic.
            try_bind (py_get parameters ''sentences'' (JInt 3)) (\<lambda>sentences.
              tool (GetSummary topic sentences)))
          else
            try_bind (key_in ''query'' parameters) (\<lambda>has_query.
              if has_query then
                try_bind (py_item parameters ''query'') (\<lambda>query.
                try_bind (py_get parameters ''limit'' (JInt 5)) (\<lambda>limit.
                  tool (SearchArticles query limit)))
              else
                try_bind (key_in ''topics'' parameters) (\<lambda>has_topics.
                  if has_topics then
                    try_bind (py_item parameters ''topics'') (\<lambda>topics.
                      tool (CompareTopics topics))
                  else raise (Exn ValueError
                    (''Wikipedia tool requires '' @ sq @ ''topic'' @ sq @ '', '' @ sq @ ''query'' @ sq
                       @ '', or '' @ sq @ ''topics'' @ sq @ '' parameter'')))))
      else raise (Exn ValueError (''Unknown tool: '' @ py_str tool_name)))"

text \<open>
  \<^verbatim>\<open>tool_name not in self.tools\<close>: a list or a dictionary cannot be hashed and raises;
  the keys of \<^verbatim>\<open>self.tools\<close> are strings, so no other value is found.
\<close>

fun tools_lookup :: "'s tools \<Rightarrow> json \<Rightarrow> exn + 's tool option" where
  "tools_lookup tools (JStr name) = Inr (tools name)"
| "tools_lookup tools (JList xs) =
     Inl (Exn TypeError (''unhashable type: '' @ sq @ ''list'' @ sq))"
| "tools_lookup tools (JDict kvs) =
     Inl (Exn TypeError (''unhashable type: '' @ sq @ ''dict'' @ sq))"
| "tools_lookup tools v = Inr None"

text \<open>
  The result of one step. The source also stores \<^verbatim>\<open>execution_time\<close>, a difference of
  two readings of the wall clock, which is not modelled.
\<close>

record step_result =
  step_number :: json
  status :: string
  data :: json
  error :: "string option"

definition execute_step ::
  "(json \<Rightarrow> string) \<Rightarrow> 's tools \<Rightarrow> json \<Rightarrow> 's world \<Rightarrow> (exn + step_result) \<times> 's world" where
  "execute_step py_str tools step w =
     (case py_get step ''step_number'' (JInt 0) of
        Inl e \<Rightarrow> (Inl e, w)
      | Inr step_no \<Rightarrow>
     (case py_get step ''tool'' (JStr []) of
        Inl e \<Rightarrow> (Inl e, w)
      | Inr tool_name \<Rightarrow>
     (case py_get step ''parameters'' (JDict []) of
        Inl e \<Rightarrow> (Inl e, w)
      | Inr parameters \<Rightarrow>
     (case tools_lookup tools tool_name of
        Inl e \<Rightarrow> (Inl e, w)
      | Inr None \<Rightarrow>
          (Inr \<lparr>step_number = step_no, status = ''failed'', data = JNull,
                error = Some (''Tool '' @ sq @ py_str tool_name @ sq
                                @ '' not found in available tools'')\<rparr>, w)
      | Inr (Some tool) \<Rightarrow>
          (case retry_with_backoff (call_tool_method py_str tool tool_name parameters) 3 1 2 w of
             (Inr result_data, w') \<Rightarrow>
               (Inr \<lparr>step_number = step_no, status = ''success'', data = result_data,
                     error = None\<rparr>, w')
           | (Inl e, w') \<Rightarrow>
               (Inr \<lparr>step_number = step_no, status = ''failed'', data = JNull,
                     error = Some (exn_str e)\<rparr>, w'))))))"

text \<open>
  \<^verbatim>\<open>_summarize_result\<close> and \<^verbatim>\<open>_log_execution\<close>. \<open>py_str\<close> is \<^verbatim>\<open>str()\<close> on the values of a
  plan, as \<^verbatim>\<open>json.loads\<close> produced them, and on counts. \<open>data_str\<close> is \<^verbatim>\<open>str()\<close> on a value that a
  tool returned: a tool may return an object of any class, and printing it may raise.
  A log entry is modelled without its leading time stamp, a reading of the wall clock.
\<close>

definition summarize_result ::
  "(json \<Rightarrow> string) \<Rightarrow> (json \<Rightarrow> exn + string) \<Rightarrow> json \<Rightarrow> exn + string" where
  "summarize_result py_str data_str result =
     (if result = JNull then Inr ''No data''
      else if is_list result then
        bind_exn (py_len result) (\<lambda>n. Inr (''Retrieved '' @ py_str (JInt (int n)) @ '' items''))
      else if is_dict result then
        bind_exn (key_in ''city'' result) (\<lambda>has_city.
          if has_city then
            bind_exn (py_get result ''city'' (JStr ''unknown'')) (\<lambda>v.
              bind_exn (data_str v) (\<lambda>shown. Inr (''Weather data for '' @ shown)))
          else
            bind_exn (key_in ''name'' result) (\<lambda>has_name.
              if has_name then
                bind_exn (py_get result ''name'' (JStr ''unknown'')) (\<lambda>v.
                  bind_exn (data_str v) (\<lambda>shown. Inr (''Data for '' @ shown)))
              else
                bind_exn (key_in ''title'' result) (\<lambda>has_title.
                  if has_title then
                    bind_exn (py_get result ''title'' (JStr ''unknown'')) (\<lambda>v.
                      bind_exn (data_str v) (\<lambda>shown. Inr (''Article: '' @ shown)))
                  else
                    bind_exn (py_len result) (\<lambda>n.
                      Inr (''Dictionary with '' @ py_str (JInt (int n)) @ '' fields'')))))
      else bind_exn (data_str result) (\<lambda>shown. Inr (''Data: '' @ take 50 shown)))"

text \<open>
  The entry \<^verbatim>\<open>_log_execution\<close> appends, or what it raises. \<open>outcome\<close> is its \<^verbatim>\<open>status\<close>
  argument and \<open>err\<close> its \<^verbatim>\<open>error\<close> argument, \<^verbatim>\<open>None\<close> by default.
\<close>

definition log_execution ::
  "(json \<Rightarrow> string) \<Rightarrow> (json \<Rightarrow> exn + string) \<Rightarrow> json \<Rightarrow> string \<Rightarrow> json \<Rightarrow> string option
     \<Rightarrow> exn + string" where
  "log_execution py_str data_str step_no outcome result err =
     (if outcome = ''success'' then
        bind_exn (summarize_result py_str data_str result) (\<lambda>result_summary.
          Inr (''Step '' @ py_str step_no @ '': SUCCESS - '' @ result_summary))
      else
        Inr (''Step '' @ py_str step_no @ '': FAILED - ''
               @ (case err of None \<Rightarrow> py_str JNull | Some msg \<Rightarrow> msg)))"

text \<open>
  The result of a plan; \<open>execution_log\<close> holds the entries logged for this plan.
\<close>

record execution_result =
  success :: bool
  steps_completed :: nat
  steps_failed :: nat
  results :: "step_result list"
  execution_log :: "string list"

text \<open>
  The body of the \<^verbatim>\<open>try\<close> in the loop of \<^verbatim>\<open>execute_plan\<close>, for one step: the step's
  result and its log entry, or the exception that leaves the body, each with the two
  tallies as the body left them. A tally is incremented before the entry is logged, so
  it stays incremented when logging raises.
\<close>

definition try_step ::
  "(json \<Rightarrow> string) \<Rightarrow> (json \<Rightarrow> exn + string) \<Rightarrow> 's tools \<Rightarrow> json \<Rightarrow> json \<Rightarrow> nat \<Rightarrow> nat
     \<Rightarrow> 's world \<Rightarrow> ((exn + step_result \<times> string) \<times> nat \<times> nat) \<times> 's world" where
  "try_step py_str data_str tools step step_no completed failed w =
     (case execute_step py_str tools step w of
        (Inl e, w') \<Rightarrow> ((Inl e, completed, failed), w')
      | (Inr step_res, w') \<Rightarrow>
          (if status step_res = ''success'' then
             (case log_execution py_str data_str step_no ''success'' (data step_res) None of
                Inl e \<Rightarrow> ((Inl e, completed + 1, failed), w')
              | Inr entry \<Rightarrow> ((Inr (step_res, entry), completed + 1, failed), w'))
           else
             (case log_execution py_str data_str step_no ''failed'' JNull (error step_res) of
                Inl e \<Rightarrow> ((Inl e, completed, failed + 1), w')
              | Inr entry \<Rightarrow> ((Inr (step_res, entry), completed, failed + 1), w'))))"

text \<open>
  The loop of \<^verbatim>\<open>execute_plan\<close> over the steps, with its tallies, results and log. The
  first \<^verbatim>\<open>step.get\<close> stands before the \<^verbatim>\<open>try\<close>, so what it raises leaves the loop. The
  \<^verbatim>\<open>except\<close> branch counts the step as failed, appends a result of its own and logs
  it; what that last call raises leaves the loop as well.
\<close>

fun execute_steps ::
  "(json \<Rightarrow> string) \<Rightarrow> (json \<Rightarrow> exn + string) \<Rightarrow> 's tools \<Rightarrow> json list \<Rightarrow> nat \<Rightarrow> nat
     \<Rightarrow> step_result list \<Rightarrow> string list \<Rightarrow> 's world \<Rightarrow> (exn + execution_result) \<times> 's world" where
  "execute_steps py_str data_str tools [] completed failed rs logged w =
     (Inr \<lparr>success = (completed > 0), steps_completed = completed, steps_failed = failed,
           results = rs, execution_log = logged\<rparr>, w)"
| "execute_steps py_str data_str tools (step # rest) completed failed rs logged w =
     (case py_get step ''step_number'' (JInt 0) of
        Inl e \<Rightarrow> (Inl e, w)
      | Inr step_no \<Rightarrow>
          (case try_step py_str data_str tools step step_no completed failed w of
             ((Inr (step_res, entry), completed', failed'), w') \<Rightarrow>
               execute_steps py_str data_str tools rest completed' failed' (rs @ [step_res])
                 (logged @ [entry]) w'
           | ((Inl e, completed', failed'), w') \<Rightarrow>
               (case log_execution py_str data_str step_no ''failed'' JNull
                       (Some (''Unexpected error: '' @ exn_str e)) of
                  Inl e' \<Rightarrow> (Inl e', w')
                | Inr entry \<Rightarrow>
                    execute_steps py_str data_str tools rest completed' (failed' + 1)
                      (rs @ [\<lparr>step_number = step_no, status = ''failed'', data = JNull,
                              error = Some (''Unexpected error: '' @ exn_str e)\<rparr>])
                      (logged @ [entry]) w')))"

definition execute_plan ::
  "(json \<Rightarrow> string) \<Rightarrow> (json \<Rightarrow> exn + string) \<Rightarrow> 's tools \<Rightarrow> json \<Rightarrow> 's world
     \<Rightarrow> (exn + execution_result) \<times> 's world" where
  "execute_plan py_str data_str tools plan w =
     (if \<not> truthy plan \<or> \<not> is_dict plan
      then (Inl (Exn ValueError ''Plan must be a non-empty dictionary''), w)
      else
        (case py_get plan ''steps'' JNull of
           Inl e \<Rightarrow> (Inl e, w)
         | Inr steps \<Rightarrow>
             (if key_in ''steps'' plan \<noteq> Inr True \<or> \<not> truthy steps
              then (Inl (Exn ValueError ''Plan must contain at least one step''), w)
              else
                (case py_len steps of
                   Inl e \<Rightarrow> (Inl e, w)
                 | Inr n \<Rightarrow>
                     (case py_iter steps of
                        Inl e \<Rightarrow> (Inl e, w)
                      | Inr step_list \<Rightarrow>
                          execute_steps py_str data_str tools step_list 0 0 [] [] w)))))"

section \<open>Verifier\<close>

definition check_completeness :: "json \<Rightarrow> json \<Rightarrow> exn + bool" where
  "check_completeness plan execution =
     bind_exn (py_get plan ''steps'' (JList [])) (\<lambda>steps.
     bind_exn (py_len steps) (\<lambda>expected_steps.
     bind_exn (py_get execution ''steps_completed'' (JInt 0)) (\<lambda>completed_steps.
       Inr (py_eq_int completed_steps (int expected_steps)))))"

definition degree_c :: string where
  "degree_c = [CHR 0xC2, CHR 0xB0, CHR ''C'']"

text \<open>The body of the loop of \<^verbatim>\<open>_check_for_anomalies\<close> below the two \<^verbatim>\<open>continue\<close>s.\<close>

definition data_anomalies :: "(json \<Rightarrow> string) \<Rightarrow> json \<Rightarrow> json list \<Rightarrow> exn + json list" where
  "data_anomalies py_str d anomalies =
     bind_exn
       (if is_dict d \<and> key_in ''temperature'' d = Inr True then
          bind_exn (py_get d ''temperature'' JNull) (\<lambda>temp.
            if temp \<noteq> JNull then
              bind_exn (py_lt_int temp (- 100)) (\<lambda>too_low.
                if too_low
                then Inr (anomalies @ [JStr (''Unusual temperature value: '' @ py_str temp @ degree_c)])
                else
                  bind_exn (py_gt_int temp 60) (\<lambda>too_high.
                    if too_high
                    then Inr (anomalies @ [JStr (''Unusual temperature value: '' @ py_str temp @ degree_c)])
                    else Inr anomalies))
            else Inr anomalies)
        else Inr anomalies)
       (\<lambda>anomalies'.
          if is_list d \<and> py_len d = Inr 0
          then Inr (anomalies' @ [JStr ''Empty result set returned''])
          else Inr anomalies')"

fun scan_results :: "(json \<Rightarrow> string) \<Rightarrow> json list \<Rightarrow> json list \<Rightarrow> exn + json list" where
  "scan_results py_str [] anomalies = Inr anomalies"
| "scan_results py_str (result # rest) anomalies =
     (case py_get result ''status'' JNull of
        Inl e \<Rightarrow> Inl e
      | Inr st \<Rightarrow>
          (if st \<noteq> JStr ''success'' then scan_results py_str rest anomalies
           else
             (case py_get result ''data'' JNull of
                Inl e \<Rightarrow> Inl e
              | Inr d \<Rightarrow>
                  (if \<not> truthy d then scan_results py_str rest anomalies
                   else
                     (case data_anomalies py_str d anomalies of
                        Inl e \<Rightarrow> Inl e
                      | Inr anomalies' \<Rightarrow> scan_results py_str rest anomalies')))))"

definition check_for_anomalies :: "(json \<Rightarrow> string) \<Rightarrow> json \<Rightarrow> exn + json list" where
  "check_for_anomalies py_str execution =
     bind_exn (py_get execution ''results'' (JList [])) (\<lambda>rs.
     bind_exn (py_iter rs) (\<lambda>result_list.
       scan_results py_str result_list []))"

text \<open>
  The prompt of the quality pass is a fixed text around two dictionaries; it is given by
  the two dictionaries.
\<close>

definition build_verification_prompt :: "json \<Rightarrow> json \<Rightarrow> exn + json \<times> json" where
  "build_verification_prompt plan execution =
     bind_exn (py_get plan ''task_description'' (JStr ''No description'')) (\<lambda>task.
     bind_exn (py_get plan ''steps'' (JList [])) (\<lambda>steps.
     bind_exn (py_len steps) (\<lambda>n.
     bind_exn (py_get plan ''comparison_mode'' (JBool False)) (\<lambda>comparison_mode.
     bind_exn (py_get execution ''success'' (JBool False)) (\<lambda>ok.
     bind_exn (py_get execution ''steps_completed'' (JInt 0)) (\<lambda>completed.
     bind_exn (py_get execution ''steps_failed'' (JInt 0)) (\<lambda>failed.
     bind_exn (py_get execution ''results'' (JList [])) (\<lambda>rs.
       Inr (JDict [(''task'', task), (''steps'', JInt (int n)),
                   (''comparison_mode'', comparison_mode)],
            JDict [(''success'', ok), (''steps_completed'', completed),
                   (''steps_failed'', failed), (''results'', rs)])))))))))"

text \<open>
  \<open>llm\<close> is \<^verbatim>\<open>llm_client.generate_json_completion\<close> on the prompt and the token budget:
  it returns the parsed reply or raises, and may change the state of the provider.
\<close>

type_synonym ('p, 'l) llm = "'p \<Rightarrow> int \<Rightarrow> 'l \<Rightarrow> (exn + json) \<times> 'l"

definition verify_with_llm ::
  "(json \<times> json, 'l) llm \<Rightarrow> json \<Rightarrow> json \<Rightarrow> 'l \<Rightarrow> (exn + json) \<times> 'l" where
  "verify_with_llm llm plan execution l =
     (case build_verification_prompt plan execution of
        Inl e \<Rightarrow> (Inl e, l)
      | Inr messages \<Rightarrow> llm messages 1500 l)"

definition format_item :: "(json \<Rightarrow> string) \<Rightarrow> json \<Rightarrow> json" where
  "format_item py_str item =
     (case item of
        JDict kvs \<Rightarrow>
          (case map_of kvs ''name'' of
             Some v \<Rightarrow> v
           | None \<Rightarrow>
               (case map_of kvs ''title'' of
                  Some v \<Rightarrow> v
                | None \<Rightarrow>
                    (case map_of kvs ''city'' of
                       Some city \<Rightarrow>
                         JStr (py_str city @ '' ('' @
                           py_str (case map_of kvs ''temperature'' of
                                     None \<Rightarrow> JStr ''N/A'' | Some t \<Rightarrow> t)
                           @ degree_c @ '')'')
                     | None \<Rightarrow>
                         JStr (''Dict with '' @ py_str (JInt (int (length kvs))) @ '' fields''))))
      | _ \<Rightarrow> JStr (py_str item))"

definition format_data :: "(json \<Rightarrow> string) \<Rightarrow> json \<Rightarrow> json" where
  "format_data py_str d =
     (case d of
        JList xs \<Rightarrow>
          (if length xs = 0 then JStr ''Empty list''
           else if length xs \<le> 3 then
             JStr (py_str (JInt (int (length xs))) @ '' items: ''
                     @ py_str (JList (map (format_item py_str) xs)))
           else
             JStr (py_str (JInt (int (length xs))) @ '' items (showing first 3): ''
                     @ py_str (JList (map (format_item py_str) (take 3 xs)))))
      | JDict kvs \<Rightarrow> format_item py_str d
      | _ \<Rightarrow> JStr (py_str d))"

definition rule_line :: string where
  "rule_line = replicate 60 (CHR ''='')"

definition check_mark :: string where
  "check_mark = [CHR 0xE2, CHR 0x9C, CHR 0x93]"

definition cross_mark :: string where
  "cross_mark = [CHR 0xE2, CHR 0x9C, CHR 0x97]"

fun format_results :: "(json \<Rightarrow> string) \<Rightarrow> json list \<Rightarrow> string list \<Rightarrow> exn + string list" where
  "format_results py_str [] lines = Inr lines"
| "format_results py_str (result # rest) lines =
     (case py_get result ''step_number'' (JInt 0) of
        Inl e \<Rightarrow> Inl e
      | Inr step_num \<Rightarrow>
     (case py_get result ''status'' (JStr ''unknown'') of
        Inl e \<Rightarrow> Inl e
      | Inr (JStr st) \<Rightarrow>
          (let lines1 = lines @ [''Step '' @ py_str step_num @ '': '' @ str_upper st] in
           if st = ''success'' then
             (case py_get result ''data'' JNull of
                Inl e \<Rightarrow> Inl e
              | Inr d \<Rightarrow>
                  format_results py_str rest
                    ((if truthy d
                      then lines1 @ [''  Data: '' @ py_str (format_data py_str d)]
                      else lines1) @ [[]]))
           else
             (case py_get result ''error'' (JStr ''Unknown error'') of
                Inl e \<Rightarrow> Inl e
              | Inr err \<Rightarrow>
                  format_results py_str rest (lines1 @ [''  Error: '' @ py_str err] @ [[]])))
      | Inr v \<Rightarrow>
          Inl (Exn AttributeError
            (sq @ py_type_name v @ sq @ '' object has no attribute '' @ sq @ ''upper'' @ sq))))"

fun join_lines :: "string list \<Rightarrow> string" where
  "join_lines [] = []"
| "join_lines [x] = x"
| "join_lines (x # y # rest) = x @ [CHR 0x0A] @ join_lines (y # rest)"

definition format_for_display :: "(json \<Rightarrow> string) \<Rightarrow> json \<Rightarrow> exn + string" where
  "format_for_display py_str execution =
     bind_exn (py_get execution ''success'' JNull) (\<lambda>ok.
     bind_exn (py_get execution ''steps_completed'' (JInt 0)) (\<lambda>completed.
     bind_exn (py_get execution ''steps_failed'' (JInt 0)) (\<lambda>failed.
     bind_exn (py_get execution ''results'' (JList [])) (\<lambda>rs.
     bind_exn (py_iter rs) (\<lambda>result_list.
     bind_exn
       (format_results py_str result_list
          [rule_line, ''EXECUTION RESULTS'', rule_line,
           (if truthy ok then check_mark @ '' Overall Status: SUCCESS''
            else cross_mark @ '' Overall Status: FAILED''),
           ''Steps Completed: '' @ py_str completed,
           ''Steps Failed: '' @ py_str failed,
           []])
       (\<lambda>lines. Inr (join_lines (lines @ [rule_line]))))))))"

record verification_result =
  is_complete :: bool
  is_correct :: json
  confidence_score :: json
  issues :: "json list"
  formatted_output :: json
  summary :: json
  recommendations :: json

text \<open>
  \<^verbatim>\<open>verify_results\<close> up to the quality pass: completeness and the issues found without
  the model.
\<close>

definition collect_issues :: "(json \<Rightarrow> string) \<Rightarrow> json \<Rightarrow> json \<Rightarrow> exn + bool \<times> json list" where
  "collect_issues py_str plan execution =
     bind_exn (check_completeness plan execution) (\<lambda>all_done.
     bind_exn (py_get execution ''steps_failed'' (JInt 0)) (\<lambda>failed.
     bind_exn (py_gt_int failed 0) (\<lambda>any_failed.
     bind_exn (py_get plan ''steps'' (JList [])) (\<lambda>steps.
     bind_exn (py_len steps) (\<lambda>expected_steps.
     bind_exn (py_get execution ''steps_completed'' (JInt 0)) (\<lambda>completed_steps.
     bind_exn (check_for_anomalies py_str execution) (\<lambda>anomalies.
       Inr (all_done,
            (if any_failed then [JStr (py_str failed @ '' step(s) failed during execution'')]
             else [])
            @ (if \<not> all_done
               then [JStr (''Only '' @ py_str completed_steps @ '' of ''
                             @ py_str (JInt (int expected_steps))
                             @ '' steps completed successfully'')]
               else [])
            @ anomalies))))))))"

text \<open>
  The \<^verbatim>\<open>try\<close> block of \<^verbatim>\<open>verify_results\<close>: the reply's four fields and the issues
  it adds. Whatever raises here is caught by the \<^verbatim>\<open>except\<close> of the caller.
\<close>

definition quality_pass ::
  "(json \<times> json, 'l) llm \<Rightarrow> json \<Rightarrow> json \<Rightarrow> 'l
     \<Rightarrow> (exn + (json \<times> json \<times> json \<times> json) \<times> json list) \<times> 'l" where
  "quality_pass llm plan execution l =
     (case verify_with_llm llm plan execution l of
        (Inl e, l') \<Rightarrow> (Inl e, l')
      | (Inr reply, l') \<Rightarrow>
          (bind_exn (py_get reply ''formatted_output'' (JStr [])) (\<lambda>fo.
           bind_exn (py_get reply ''summary'' (JStr [])) (\<lambda>su.
           bind_exn (py_get reply ''recommendations'' (JList [])) (\<lambda>re.
           bind_exn (py_get reply ''confidence_score'' (JFloat (1 / 2))) (\<lambda>co.
           bind_exn (py_get reply ''issues'' (JList [])) (\<lambda>llm_issues.
           bind_exn (py_iter llm_issues) (\<lambda>extra.
             Inr ((fo, su, re, co), extra))))))), l'))"

definition verify_results ::
  "(json \<Rightarrow> string) \<Rightarrow> (json \<times> json, 'l) llm \<Rightarrow> json \<Rightarrow> json \<Rightarrow> 'l
     \<Rightarrow> (exn + verification_result) \<times> 'l" where
  "verify_results py_str llm plan execution l =
     (if \<not> truthy plan \<or> \<not> is_dict plan
      then (Inl (Exn ValueError ''Plan must be a non-empty dictionary''), l)
      else if \<not> truthy execution \<or> \<not> is_dict execution
      then (Inl (Exn ValueError ''Execution result must be a non-empty dictionary''), l)
      else
        (case collect_issues py_str plan execution of
           Inl e \<Rightarrow> (Inl e, l)
         | Inr (all_done, found) \<Rightarrow>
             (case py_get execution ''success'' (JBool False) of
                Inl e \<Rightarrow> (Inl e, l)
              | Inr ok \<Rightarrow>
                  (case quality_pass llm plan execution l of
                     (Inr ((fo, su, re, co), extra), l') \<Rightarrow>
                       (Inr \<lparr>is_complete = all_done,
                             is_correct = (if found @ extra = [] then ok else JBool False),
                             confidence_score = co,
                             issues = found @ extra,
                             formatted_output = fo,
                             summary = su,
                             recommendations = re\<rparr>, l')
                   | (Inl e, l') \<Rightarrow>
                       (case format_for_display py_str execution of
                          Inl e' \<Rightarrow> (Inl e', l')
                        | Inr shown \<Rightarrow>
                            (Inr \<lparr>is_complete = all_done,
                                  is_correct = (if found = [] then ok else JBool False),
                                  confidence_score = JFloat (1 / 2),
                                  issues = found,
                                  formatted_output = JStr shown,
                                  summary = JStr ''Verification completed with basic formatting (LLM unavailable)'',
                                  recommendations = JList []\<rparr>, l'))))))"

section \<open>Planner\<close>

definition required_fields :: "string list" where
  "required_fields = [''task_description'', ''intent'', ''steps'']"

definition step_required_fields :: "string list" where
  "step_required_fields = [''step_number'', ''action'', ''tool'', ''parameters'', ''expected_output'']"

definition valid_intents :: "string list" where
  "valid_intents = [''search'', ''compare'', ''summarize'', ''mixed'']"

definition valid_tools :: "string list" where
  "valid_tools = [''github'', ''weather'', ''wikipedia'']"

text \<open>\<^verbatim>\<open>for field in fields: if field not in d: return False\<close>; \<open>Inr True\<close> when the loop ends.\<close>

fun fields_present :: "string list \<Rightarrow> json \<Rightarrow> exn + bool" where
  "fields_present [] d = Inr True"
| "fields_present (field # rest) d =
     (case key_in field d of
        Inl e \<Rightarrow> Inl e
      | Inr present \<Rightarrow> if \<not> present then Inr False else fields_present rest d)"

text \<open>\<^verbatim>\<open>v in names\<close> for a list of strings: only a string equals a string.\<close>

fun in_names :: "json \<Rightarrow> string list \<Rightarrow> bool" where
  "in_names (JStr s) names = (s \<in> set names)"
| "in_names v names = False"

text \<open>The loop over \<^verbatim>\<open>enumerate(steps)\<close>; \<open>i\<close> is the index of the first step of the list.\<close>

fun validate_steps :: "nat \<Rightarrow> json list \<Rightarrow> exn + bool" where
  "validate_steps i [] = Inr True"
| "validate_steps i (step # rest) =
     (case fields_present step_required_fields step of
        Inl e \<Rightarrow> Inl e
      | Inr present \<Rightarrow>
          (if \<not> present then Inr False
           else
             (case py_get step ''step_number'' JNull of
                Inl e \<Rightarrow> Inl e
              | Inr actual_step_num \<Rightarrow>
                  (if \<not> py_eq_int actual_step_num (int i + 1) then Inr False
                   else
                     (case py_get step ''tool'' JNull of
                        Inl e \<Rightarrow> Inl e
                      | Inr tool \<Rightarrow>
                          (if \<not> in_names tool valid_tools then Inr False
                           else
                             (case py_get step ''parameters'' JNull of
                                Inl e \<Rightarrow> Inl e
                              | Inr parameters \<Rightarrow>
                                  (if \<not> is_dict parameters then Inr False
                                   else validate_steps (i + 1) rest))))))))"

text \<open>
  The body of the \<^verbatim>\<open>try\<close> of \<^verbatim>\<open>_validate_plan\<close>. The check of
  \<^verbatim>\<open>comparison_mode\<close> only logs a warning and is left out.
\<close>

definition validate_plan_body :: "json \<Rightarrow> exn + bool" where
  "validate_plan_body plan =
     bind_exn (fields_present required_fields plan) (\<lambda>present.
       if \<not> present then Inr False
       else
         bind_exn (py_get plan ''intent'' JNull) (\<lambda>intent.
           if \<not> in_names intent valid_intents then Inr False
           else
             bind_exn (py_get plan ''steps'' (JList [])) (\<lambda>steps.
               if \<not> truthy steps \<or> \<not> is_list steps then Inr False
               else bind_exn (py_iter steps) (\<lambda>step_list. validate_steps 0 step_list))))"

definition validate_plan :: "json \<Rightarrow> bool" where
  "validate_plan plan = (case validate_plan_body plan of Inl e \<Rightarrow> False | Inr ok \<Rightarrow> ok)"

definition comparison_keywords :: "string list" where
  "comparison_keywords =
     [''compare'', ''comparison'', ''vs'', ''versus'', ''difference between'',
      ''differences between'', ''which is better'', ''better than'', ''contrast'',
      '' and '', '' or '']"

text \<open>\<^verbatim>\<open>for keyword in keywords: if keyword in query_lower: return True\<close>.\<close>

fun keyword_found :: "string list \<Rightarrow> string \<Rightarrow> bool" where
  "keyword_found [] query_lower = False"
| "keyword_found (keyword # rest) query_lower =
     (if str_in keyword query_lower then True else keyword_found rest query_lower)"

definition detect_comparison_intent :: "string \<Rightarrow> bool" where
  "detect_comparison_intent user_query =
     (let query_lower = str_lower user_query in
      if keyword_found comparison_keywords query_lower then True
      else if str_in '','' query_lower
              \<and> (str_in '' and '' query_lower \<or> str_in '' or '' query_lower)
      then True
      else False)"

text \<open>
  The planning prompt is a fixed system text and one user message; it is given by the
  user message.
\<close>

definition build_planning_prompt :: "string \<Rightarrow> string" where
  "build_planning_prompt user_query = ''Create an execution plan for this query: '' @ user_query"

definition create_plan :: "(string, 'l) llm \<Rightarrow> string \<Rightarrow> 'l \<Rightarrow> (exn + json) \<times> 'l" where
  "create_plan llm user_query l =
     (if user_query = [] \<or> str_strip user_query = []
      then (Inl (Exn ValueError ''User query cannot be empty''), l)
      else
        (let user_query' = str_strip user_query;
             is_comparison = detect_comparison_intent user_query';
             messages = build_planning_prompt user_query'
         in case llm messages 2000 l of
              (Inl e, l') \<Rightarrow> (Inl e, l')
            | (Inr plan, l') \<Rightarrow>
                (if \<not> validate_plan plan
                 then (Inl (Exn ValueError ''Generated plan failed validation''), l')
                 else (Inr plan, l'))))"

section \<open>LLM client\<close>

text \<open>
  The fields of the client that decide its control flow. \<open>openai_available\<close> is the
  module's flag of the same name. The provider call (\<^verbatim>\<open>_generate_openai\<close> or
  \<^verbatim>\<open>_generate_gemini\<close>) is a parameter \<open>call\<close>: it returns the completion text or
  raises.
\<close>

record llm_client =
  provider :: string
  max_retries :: int
  openai_available :: bool

definition calculate_backoff :: "int \<Rightarrow> int" where
  "calculate_backoff attempt = min (2 ^ nat attempt) 60"

definition retryable_keywords :: "string list" where
  "retryable_keywords = [''rate limit'', ''quota'', ''429'', ''503'', ''timeout'', ''connection'']"

definition is_retryable :: "exn \<Rightarrow> bool" where
  "is_retryable e = list_ex (\<lambda>keyword. str_in keyword (str_lower (exn_str e))) retryable_keywords"

text \<open>
  What the \<^verbatim>\<open>except\<close> block decides for an exception at an attempt: sleep and go on
  (\<open>True\<close>), or raise the exception again (\<open>False\<close>).
\<close>

definition keyword_retry :: "llm_client \<Rightarrow> int \<Rightarrow> exn \<Rightarrow> bool" where
  "keyword_retry c attempt e = (is_retryable e \<and> attempt < max_retries c - 1)"

definition retries :: "llm_client \<Rightarrow> int \<Rightarrow> exn \<Rightarrow> bool" where
  "retries c attempt e =
     (if provider c = ''openai'' \<and> openai_available c then
        (case exn_class_of e of
           RateLimitError \<Rightarrow> True
         | APIConnectionError \<Rightarrow> True
         | APIError status_code \<Rightarrow>
             (case status_code of Some code \<Rightarrow> 500 \<le> code \<and> code < 600 | None \<Rightarrow> False)
         | _ \<Rightarrow> keyword_retry c attempt e)
      else keyword_retry c attempt e)"

function completion_loop ::
  "(json \<Rightarrow> string) \<Rightarrow> llm_client \<Rightarrow> ('s \<Rightarrow> (exn + string) \<times> 's) \<Rightarrow> int \<Rightarrow> exn option
     \<Rightarrow> 's world \<Rightarrow> (exn + string) \<times> 's world" where
  "completion_loop py_str c call attempt last_error w =
     (if attempt < max_retries c then
        (case (if provider c = ''openai'' \<or> provider c = ''gemini'' then call (ext w)
               else (Inl (Exn ValueError (''Unsupported provider: '' @ provider c)), ext w)) of
           (Inr completion, s') \<Rightarrow> (Inr completion, w\<lparr>ext := s'\<rparr>)
         | (Inl e, s') \<Rightarrow>
             (if retries c attempt e
              then completion_loop py_str c call (attempt + 1) (Some e)
                     (sleep (of_int (calculate_backoff attempt)) (w\<lparr>ext := s'\<rparr>))
              else (Inl e, w\<lparr>ext := s'\<rparr>)))
      else
        (Inl (Exn PlainException
           (''Failed after '' @ py_str (JInt (max_retries c)) @ '' attempts. Last error: ''
              @ (case last_error of None \<Rightarrow> py_str JNull | Some e \<Rightarrow> exn_str e))), w))"
  by pat_completeness auto
termination
  by (relation "measure (\<lambda>(py_str, c, call, attempt, last_error, w). nat (max_retries c - attempt))")
     auto

declare completion_loop.simps [simp del]

definition generate_completion ::
  "(json \<Rightarrow> string) \<Rightarrow> llm_client \<Rightarrow> ('s \<Rightarrow> (exn + string) \<times> 's) \<Rightarrow> 'm list \<Rightarrow> 's world
     \<Rightarrow> (exn + string) \<times> 's world" where
  "generate_completion py_str c call messages w =
     (if messages = [] then (Inl (Exn ValueError ''Messages list cannot be empty''), w)
      else completion_loop py_str c call 0 None w)"

text \<open>\<open>loads\<close> is \<^verbatim>\<open>json.loads\<close>: the parsed value, or the text of its \<^verbatim>\<open>JSONDecodeError\<close>.\<close>

definition generate_json_completion ::
  "(json \<Rightarrow> string) \<Rightarrow> llm_client \<Rightarrow> ('s \<Rightarrow> (exn + string) \<times> 's) \<Rightarrow> (string \<Rightarrow> string + json)
     \<Rightarrow> 'm list \<Rightarrow> 's world \<Rightarrow> (exn + json) \<times> 's world" where
  "generate_json_completion py_str c call loads messages w =
     (case generate_completion py_str c call messages w of
        (Inl e, w') \<Rightarrow> (Inl e, w')
      | (Inr completion_text, w') \<Rightarrow>
          (case loads completion_text of
             Inr json_response \<Rightarrow> (Inr json_response, w')
           | Inl err \<Rightarrow> (Inl (Exn ValueError (''Failed to parse JSON response: '' @ err)), w')))"

section \<open>A sample run\<close>

text \<open>
  A plan of four steps against one weather tool, whose state counts the calls made to
  it: the first step succeeds, the second always meets a connection timeout, the third
  names a tool that is not registered, and the fourth carries a tool name that cannot be
  hashed. \<open>scenario_str\<close> prints strings, \<^verbatim>\<open>None\<close> and integers.
\<close>

fun decimal :: "nat \<Rightarrow> string" where
  "decimal n = (if n < 10 then [char_of (48 + n)] else decimal (n div 10) @ [char_of (48 + n mod 10)])"

declare decimal.simps [simp del]

definition scenario_str :: "json \<Rightarrow> string" where
  "scenario_str v =
     (case v of
        JStr s \<Rightarrow> s
      | JNull \<Rightarrow> ''None''
      | JInt n \<Rightarrow> (if n < 0 then ''-'' @ decimal (nat (- n)) else decimal (nat n))
      | _ \<Rightarrow> ''?'')"

definition scenario_weather :: "nat tool" where
  "scenario_weather call n =
     (case call of
        GetCurrentWeather city units \<Rightarrow>
          (if city = JStr ''London''
           then (Inr (JDict [(''city'', city), (''temperature'', JInt 18)]), Suc n)
           else (Inl (Exn OtherException ''Connection timeout''), Suc n))
      | _ \<Rightarrow> (Inl (Exn AttributeError ''unsupported''), Suc n))"

definition scenario_tools :: "nat tools" where
  "scenario_tools name = (if name = ''weather'' then Some scenario_weather else None)"

definition scenario_step :: "int \<Rightarrow> json \<Rightarrow> string \<Rightarrow> json" where
  "scenario_step k tool city =
     JDict [(''step_number'', JInt k), (''action'', JStr ''Fetch''), (''tool'', tool),
            (''parameters'', JDict [(''city'', JStr city)]), (''expected_output'', JStr ''Weather'')]"





text \<open>
  A run in which printing fails. Python refuses to print an integer of more than
  \<open>int_max_str_digits\<close> digits and raises \<^verbatim>\<open>ValueError\<close>; \<open>limited_str\<close> is \<^verbatim>\<open>str()\<close> with
  that limit. The weather tool \<open>station_weather\<close> answers every request and names the
  city by a station number of 5001 digits.
\<close>

definition int_max_str_digits :: nat where
  "int_max_str_digits = 4300"

definition limited_str :: "json \<Rightarrow> exn + string" where
  "limited_str v =
     (case v of
        JInt n \<Rightarrow>
          (if 10 ^ int_max_str_digits \<le> \<bar>n\<bar>
           then Inl (Exn ValueError ''Exceeds the limit (4300 digits) for integer string conversion'')
           else Inr (scenario_str v))
      | _ \<Rightarrow> Inr (scenario_str v))"

definition station_number :: int where
  "station_number = 10 ^ (int_max_str_digits + 700)"

definition station_weather :: "nat tool" where
  "station_weather call n =
     (Inr (JDict [(''city'', JInt station_number), (''temperature'', JInt 18)]), Suc n)"

definition station_tools :: "nat tools" where
  "station_tools name = (if name = ''weather'' then Some station_weather else None)"

definition station_plan :: json where
  "station_plan =
     JDict [(''task_description'', JStr ''Weather in London''), (''intent'', JStr ''search''),
            (''steps'', JList [scenario_step 1 (JStr ''weather'') ''London''])]"



text \<open>
  A function whose successive calls return the outcomes of a script; its state is the
  number of calls made.
\<close>

definition scripted :: "(exn + json) list \<Rightarrow> nat \<Rightarrow> (exn + json) \<times> nat" where
  "scripted outcomes n =
     (if n < length outcomes then outcomes ! n
      else Inl (Exn OtherException ''script exhausted''), Suc n)"

definition timeout_error :: exn where
  "timeout_error = Exn OtherException ''Connection timeout''"

definition not_found_error :: exn where
  "not_found_error = Exn ValueError ''City not found''"

text \<open>
  Inputs of the verifier: a plan of one search step with an execution whose only step
  succeeded with an empty list, a plan of two weather steps with an execution where the
  second step failed, a model that answers with a formatted text and no issues, and a
  model that is unavailable.
\<close>

definition search_plan :: json where
  "search_plan =
     JDict [(''task_description'', JStr ''Find repositories''), (''intent'', JStr ''search''),
            (''steps'', JList [JDict [(''step_number'', JInt 1), (''action'', JStr ''Search''),
                                      (''tool'', JStr ''github''),
                                      (''parameters'', JDict [(''query'', JStr ''rust'')]),
                                      (''expected_output'', JStr ''Repositories'')]])]"

definition empty_search_execution :: json where
  "empty_search_execution =
     JDict [(''success'', JBool True), (''steps_completed'', JInt 1), (''steps_failed'', JInt 0),
            (''results'', JList [JDict [(''step_number'', JInt 1), (''status'', JStr ''success''),
                                        (''data'', JList []), (''error'', JNull)]])]"

definition weather_plan :: json where
  "weather_plan =
     JDict [(''task_description'', JStr ''Compare weather''), (''intent'', JStr ''compare''),
            (''steps'', JList [scenario_step 1 (JStr ''weather'') ''London'',
                               scenario_step 2 (JStr ''weather'') ''Tokyo''])]"

definition partial_execution :: json where
  "partial_execution =
     JDict [(''success'', JBool True), (''steps_completed'', JInt 1), (''steps_failed'', JInt 1),
            (''results'', JList [JDict [(''step_number'', JInt 1), (''status'', JStr ''success''),
                                        (''data'', JDict [(''city'', JStr ''London''),
                                                          (''temperature'', JInt 18)]),
                                        (''error'', JNull)],
                                 JDict [(''step_number'', JInt 2), (''status'', JStr ''failed''),
                                        (''data'', JNull),
                                        (''error'', JStr ''Connection timeout'')]])]"

definition quiet_llm :: "(json \<times> json, unit) llm" where
  "quiet_llm prompt budget l =
     (Inr (JDict [(''formatted_output'', JStr ''Report''), (''summary'', JStr ''Done''),
                  (''confidence_score'', JFloat (9 / 10))]), l)"


text \<open>
  Plans as a model would return them: one step per entry of \<open>numbers\<close>, carrying that entry
  as its \<^verbatim>\<open>step_number\<close>, and a model that replies with a given plan.
\<close>

definition numbered_step :: "json \<Rightarrow> json" where
  "numbered_step n =
     JDict [(''step_number'', n), (''action'', JStr ''Search repositories''),
            (''tool'', JStr ''github''), (''parameters'', JDict [(''query'', JStr ''isabelle'')]),
            (''expected_output'', JStr ''Repository list'')]"

definition numbered_plan :: "json list \<Rightarrow> json" where
  "numbered_plan numbers =
     JDict [(''task_description'', JStr ''Find repositories''), (''intent'', JStr ''search''),
            (''steps'', JList (map numbered_step numbers))]"

definition replying :: "json \<Rightarrow> (string, unit) llm" where
  "replying plan messages max_tokens l = (Inr plan, l)"

text \<open>
  Clients with the default of three attempts, and a provider call that raises the
  errors of a list one after the other; its state is the number of calls made.
\<close>

definition openai_client :: llm_client where
  "openai_client = \<lparr>provider = ''openai'', max_retries = 3, openai_available = True\<rparr>"

definition gemini_client :: llm_client where
  "gemini_client = \<lparr>provider = ''gemini'', max_retries = 3, openai_available = True\<rparr>"

definition raising :: "exn list \<Rightarrow> nat \<Rightarrow> (exn + string) \<times> nat" where
  "raising errors n =
     (if n < length errors then Inl (errors ! n) else Inr ''{}'', Suc n)"

definition rate_limit_error :: exn where
  "rate_limit_error = Exn RateLimitError ''Rate limit reached for requests''"

definition connection_error :: exn where
  "connection_error = Exn APIConnectionError ''Connection error.''"

definition server_error :: exn where
  "server_error = Exn (APIError (Some 503)) ''The server is overloaded''"

definition quota_error :: exn where
  "quota_error = Exn OtherException ''429 Resource has been exhausted (e.g. check quota).''"

section \<open>Executor: the retry wrapper, properties\<close>

lemma retry_step_transient:
  assumes "func (ext w) = (Inl e, s')" "is_transient e" "attempt < m"
  shows "retry_loop func m backoff_factor attempt delay last_exc w
       = retry_loop func m backoff_factor (attempt + 1) (delay * backoff_factor) (Some e)
           (sleep delay (w\<lparr>ext := s'\<rparr>))"
  using assms by (subst retry_loop.simps) simp

lemma retry_step_raise:
  assumes "func (ext w) = (Inl e, s')" "\<not> is_transient e \<or> m \<le> attempt"
    "attempt < m + 1"
  shows "retry_loop func m backoff_factor attempt delay last_exc w = (Inl e, w\<lparr>ext := s'\<rparr>)"
  using assms by (subst retry_loop.simps) auto

lemma retry_step_return:
  assumes "func (ext w) = (Inr v, s')" "attempt < m + 1"
  shows "retry_loop func m backoff_factor attempt delay last_exc w = (Inr v, w\<lparr>ext := s'\<rparr>)"
  using assms by (subst retry_loop.simps) simp

text \<open>
  C6. The retry wrapper with the defaults the executor uses (3 retries, first delay 1,
  factor 2). A function that fails with a transient error twice and then returns: the
  wrapper returns its value after sleeping 1 and then 2. A function whose first error
  is not transient: the wrapper raises that error after one call and no sleep. A
  function that fails with a transient error three times and fails once more: the
  wrapper stops after the fourth call and the sleeps 1, 2, 4, and raises the fourth
  error. And whatever error the wrapper raises for a registered tool is the
  \<^verbatim>\<open>error\<close> of the step's \<^verbatim>\<open>failed\<close> result.
\<close>

theorem retry_with_backoff_behaviour:
  "(func s0 = (Inl e1, s1) \<and> is_transient e1 \<and> func s1 = (Inl e2, s2) \<and> is_transient e2
      \<and> func s2 = (Inr v, s3) \<longrightarrow>
      retry_with_backoff func 3 1 2 \<lparr>ext = s0, sleeps = sl\<rparr>
        = (Inr v, \<lparr>ext = s3, sleeps = sl @ [1, 2]\<rparr>))
   \<and> (func s0 = (Inl e, t1) \<and> \<not> is_transient e \<longrightarrow>
      retry_with_backoff func 3 1 2 \<lparr>ext = s0, sleeps = sl\<rparr> = (Inl e, \<lparr>ext = t1, sleeps = sl\<rparr>))
   \<and> (func s0 = (Inl e1, s1) \<and> is_transient e1 \<and> func s1 = (Inl e2, s2) \<and> is_transient e2
      \<and> func s2 = (Inl e3, u3) \<and> is_transient e3 \<and> func u3 = (Inl e4, u4) \<longrightarrow>
      retry_with_backoff func 3 1 2 \<lparr>ext = s0, sleeps = sl\<rparr>
        = (Inl e4, \<lparr>ext = u4, sleeps = sl @ [1, 2, 4]\<rparr>))
   \<and> (py_get step ''step_number'' (JInt 0) = Inr step_no
      \<and> py_get step ''tool'' (JStr []) = Inr (JStr name)
      \<and> py_get step ''parameters'' (JDict []) = Inr parameters
      \<and> tools name = Some tool
      \<and> retry_with_backoff (call_tool_method py_str tool (JStr name) parameters) 3 1 2 w
          = (Inl err, w') \<longrightarrow>
      execute_step py_str tools step w
        = (Inr \<lparr>step_number = step_no, status = ''failed'', data = JNull,
                error = Some (exn_str err)\<rparr>, w'))"
proof (intro conjI impI)
  assume a: "func s0 = (Inl e1, s1) \<and> is_transient e1 \<and> func s1 = (Inl e2, s2) \<and> is_transient e2
      \<and> func s2 = (Inr v, s3)"
  show "retry_with_backoff func 3 1 2 \<lparr>ext = s0, sleeps = sl\<rparr>
        = (Inr v, \<lparr>ext = s3, sleeps = sl @ [1, 2]\<rparr>)"
    unfolding retry_with_backoff_def
    using a
    by (simp add: retry_step_transient retry_step_return sleep_def)
next
  assume a: "func s0 = (Inl e, t1) \<and> \<not> is_transient e"
  show "retry_with_backoff func 3 1 2 \<lparr>ext = s0, sleeps = sl\<rparr> = (Inl e, \<lparr>ext = t1, sleeps = sl\<rparr>)"
    unfolding retry_with_backoff_def
    using a
    by (simp add: retry_step_raise)
next
  assume a: "func s0 = (Inl e1, s1) \<and> is_transient e1 \<and> func s1 = (Inl e2, s2) \<and> is_transient e2
      \<and> func s2 = (Inl e3, u3) \<and> is_transient e3 \<and> func u3 = (Inl e4, u4)"
  show "retry_with_backoff func 3 1 2 \<lparr>ext = s0, sleeps = sl\<rparr>
        = (Inl e4, \<lparr>ext = u4, sleeps = sl @ [1, 2, 4]\<rparr>)"
    unfolding retry_with_backoff_def
    using a
    by (simp add: retry_step_transient retry_step_raise sleep_def)
next
  assume a: "py_get step ''step_number'' (JInt 0) = Inr step_no
      \<and> py_get step ''tool'' (JStr []) = Inr (JStr name)
      \<and> py_get step ''parameters'' (JDict []) = Inr parameters
      \<and> tools name = Some tool
      \<and> retry_with_backoff (call_tool_method py_str tool (JStr name) parameters) 3 1 2 w
          = (Inl err, w')"
  then show "execute_step py_str tools step w
        = (Inr \<lparr>step_number = step_no, status = ''failed'', data = JNull,
                error = Some (exn_str err)\<rparr>, w')"
    by (simp add: execute_step_def)
qed

theorem retry_with_backoff_behaviour_witness:
  "scripted [Inl timeout_error, Inl timeout_error, Inr (JInt 7)] 0 = (Inl timeout_error, 1)
   \<and> scripted [Inl timeout_error, Inl timeout_error, Inr (JInt 7)] 1 = (Inl timeout_error, 2)
   \<and> scripted [Inl timeout_error, Inl timeout_error, Inr (JInt 7)] 2 = (Inr (JInt 7), 3)
   \<and> is_transient timeout_error
   \<and> retry_with_backoff (scripted [Inl timeout_error, Inl timeout_error, Inr (JInt 7)]) 3 1 2
        \<lparr>ext = 0, sleeps = []\<rparr> = (Inr (JInt 7), \<lparr>ext = 3, sleeps = [1, 2]\<rparr>)
   \<and> scripted [Inl not_found_error] 0 = (Inl not_found_error, 1)
   \<and> \<not> is_transient not_found_error
   \<and> retry_with_backoff (scripted [Inl not_found_error]) 3 1 2 \<lparr>ext = 0, sleeps = []\<rparr>
        = (Inl not_found_error, \<lparr>ext = 1, sleeps = []\<rparr>)
   \<and> scripted (replicate 9 (Inl timeout_error)) 3 = (Inl timeout_error, 4)
   \<and> retry_with_backoff (scripted (replicate 9 (Inl timeout_error))) 3 1 2 \<lparr>ext = 0, sleeps = []\<rparr>
        = (Inl timeout_error, \<lparr>ext = 4, sleeps = [1, 2, 4]\<rparr>)
   \<and> scenario_tools ''weather'' = Some scenario_weather
   \<and> execute_step scenario_str scenario_tools (scenario_step 2 (JStr ''weather'') ''Tokyo'')
        \<lparr>ext = 0, sleeps = []\<rparr>
        = (Inr \<lparr>step_number = JInt 2, status = ''failed'', data = JNull,
                error = Some ''Connection timeout''\<rparr>, \<lparr>ext = 4, sleeps = [1, 2, 4]\<rparr>)"
proof -
  let ?A = "scripted [Inl timeout_error, Inl timeout_error, Inr (JInt 7)]"
  let ?B = "scripted [Inl not_found_error]"
  let ?C = "scripted (replicate 9 (Inl timeout_error))"
  let ?w = "\<lparr>ext = 0 :: nat, sleeps = []\<rparr>"
  have tr: "is_transient timeout_error" and ntr: "\<not> is_transient not_found_error"
    by code_simp+
  have a: "?A 0 = (Inl timeout_error, 1)" "?A 1 = (Inl timeout_error, 2)" "?A 2 = (Inr (JInt 7), 3)"
    by (simp_all add: scripted_def)
  have b: "?B 0 = (Inl not_found_error, 1)"
    by (simp add: scripted_def)
  have c: "?C 0 = (Inl timeout_error, 1)" "?C 1 = (Inl timeout_error, 2)"
    "?C 2 = (Inl timeout_error, 3)" "?C 3 = (Inl timeout_error, 4)"
    by (simp_all add: scripted_def)
  have p1: "retry_with_backoff ?A 3 1 2 ?w = (Inr (JInt 7), \<lparr>ext = 3, sleeps = [] @ [1, 2]\<rparr>)"
    using retry_with_backoff_behaviour
      [where func = ?A and ?s0.0 = 0 and ?e1.0 = timeout_error and ?s1.0 = 1
         and ?e2.0 = timeout_error and ?s2.0 = 2 and v = "JInt 7" and ?s3.0 = 3 and sl = "[]",
       THEN conjunct1]
      a tr
    by simp
  have p2: "retry_with_backoff ?B 3 1 2 ?w = (Inl not_found_error, \<lparr>ext = 1, sleeps = []\<rparr>)"
    using retry_with_backoff_behaviour
      [where func = ?B and ?s0.0 = 0 and e = not_found_error and ?t1.0 = 1 and sl = "[]",
       THEN conjunct2, THEN conjunct1]
      b ntr
    by simp
  have p3: "retry_with_backoff ?C 3 1 2 ?w = (Inl timeout_error, \<lparr>ext = 4, sleeps = [] @ [1, 2, 4]\<rparr>)"
    using retry_with_backoff_behaviour
      [where func = ?C and ?s0.0 = 0 and ?e1.0 = timeout_error and ?s1.0 = 1
         and ?e2.0 = timeout_error and ?s2.0 = 2 and ?e3.0 = timeout_error and ?u3.0 = 3
         and ?e4.0 = timeout_error and ?u4.0 = 4 and sl = "[]",
       THEN conjunct2, THEN conjunct2, THEN conjunct1]
      c tr
    by simp
  let ?step = "scenario_step 2 (JStr ''weather'') ''Tokyo''"
  let ?params = "JDict [(''city'', JStr ''Tokyo'')]"
  have d: "py_get ?step ''step_number'' (JInt 0) = Inr (JInt 2)"
    "py_get ?step ''tool'' (JStr []) = Inr (JStr ''weather'')"
    "py_get ?step ''parameters'' (JDict []) = Inr ?params"
    "scenario_tools ''weather'' = Some scenario_weather"
    by (simp_all add: scenario_step_def scenario_tools_def)
  have r: "retry_with_backoff
             (call_tool_method scenario_str scenario_weather (JStr ''weather'') ?params) 3 1 2 ?w
           = (Inl timeout_error, \<lparr>ext = 4, sleeps = [1, 2, 4]\<rparr>)"
    by code_simp
  have p4: "execute_step scenario_str scenario_tools ?step ?w
        = (Inr \<lparr>step_number = JInt 2, status = ''failed'', data = JNull,
                error = Some (exn_str timeout_error)\<rparr>, \<lparr>ext = 4, sleeps = [1, 2, 4]\<rparr>)"
    using retry_with_backoff_behaviour
      [where step = ?step and step_no = "JInt 2" and name = "''weather''" and parameters = ?params
         and tools = scenario_tools and tool = scenario_weather and py_str = scenario_str
         and w = ?w and err = timeout_error and w' = "\<lparr>ext = 4, sleeps = [1, 2, 4]\<rparr>",
       THEN conjunct2, THEN conjunct2, THEN conjunct2]
      d r
    by simp
  have "exn_str timeout_error = ''Connection timeout''"
    by (simp add: timeout_error_def)
  with a b c(4) tr ntr p1 p2 p3 p4 d(4) show ?thesis
    by simp
qed

section \<open>Executor: properties\<close>

lemma bind_exn_Inl:
  "bind_exn m f = Inl e \<longleftrightarrow> m = Inl e \<or> (\<exists>x. m = Inr x \<and> f x = Inl e)"
  by (cases m) auto

lemma execute_step_shape:
  assumes "execute_step py_str tools step w = (Inr sr, w')"
  shows "py_get step ''step_number'' (JInt 0) = Inr (step_number sr)"
    and "status sr = ''success'' \<or> status sr = ''failed''"
  using assms
  by (auto simp: execute_step_def split: sum.splits option.splits prod.splits)

lemma execute_step_returns:
  assumes "is_dict step"
  shows "(\<exists>sr w'. execute_step py_str tools step w = (Inr sr, w'))
       \<or> (\<exists>e. execute_step py_str tools step w = (Inl e, w))"
  using assms
  by (cases step) (auto simp: execute_step_def split: sum.splits option.splits prod.splits)

lemma summarize_result_raises:
  assumes "summarize_result py_str data_str result = Inl e"
  shows "\<exists>v. data_str v = Inl e"
  using assms
  by (cases result) (auto simp: summarize_result_def bind_exn_Inl split: if_splits)

lemma log_execution_raises:
  assumes "log_execution py_str data_str step_no outcome result err = Inl e"
  shows "outcome = ''success'' \<and> summarize_result py_str data_str result = Inl e"
  using assms
  by (auto simp: log_execution_def bind_exn_Inl split: if_splits)


text \<open>
  What one turn of the loop does when \<^verbatim>\<open>execute_plan\<close> goes on to return: it appends one
  result carrying the step's number, and either counts the step once, by the status of
  that result, or, when logging a success raised, counts it as completed and as failed
  and appends a \<^verbatim>\<open>failed\<close> result.
\<close>

lemma execute_steps_turn:
  assumes "execute_steps py_str data_str tools (step # rest) c f rs lg w = (Inr r, w')"
  obtains sr entry c' f' w1 where
    "py_get step ''step_number'' (JInt 0) = Inr (step_number sr)"
    "execute_steps py_str data_str tools rest c' f' (rs @ [sr]) (lg @ [entry]) w1 = (Inr r, w')"
    "(status sr = ''success'' \<and> c' = c + 1 \<and> f' = f
        \<and> execute_step py_str tools step w = (Inr sr, w1))
     \<or> (status sr = ''failed'' \<and> c' = c \<and> f' = f + 1)
     \<or> (status sr = ''failed'' \<and> c' = c + 1 \<and> f' = f + 1
        \<and> (\<exists>sr0 e. execute_step py_str tools step w = (Inr sr0, w1)
               \<and> status sr0 = ''success''
               \<and> summarize_result py_str data_str (data sr0) = Inl e))"
proof -
  from assms obtain step_no where sn: "py_get step ''step_number'' (JInt 0) = Inr step_no"
    by (cases "py_get step ''step_number'' (JInt 0)") auto
  obtain out w1 where es: "execute_step py_str tools step w = (out, w1)"
    by (cases "execute_step py_str tools step w")
  let ?unexpected = "\<lambda>e. \<lparr>step_number = step_no, status = ''failed'', data = JNull,
                            error = Some (''Unexpected error: '' @ exn_str e)\<rparr>"
  have failed_entry: "log_execution py_str data_str step_no ''failed'' result err
      = Inr (''Step '' @ py_str step_no @ '': FAILED - ''
               @ (case err of None \<Rightarrow> py_str JNull | Some msg \<Rightarrow> msg))" for result err
    by (simp add: log_execution_def)
  show ?thesis
  proof (cases out)
    case (Inl e)
    with assms sn es obtain entry where
      "execute_steps py_str data_str tools rest c (f + 1) (rs @ [?unexpected e]) (lg @ [entry]) w1
         = (Inr r, w')"
      by (auto simp: try_step_def failed_entry)
    with sn show ?thesis
      by (intro that [of "?unexpected e" c "f + 1" entry w1]) auto
  next
    case (Inr sr0)
    note shape = execute_step_shape [OF es [unfolded Inr]]
    show ?thesis
    proof (cases "status sr0 = ''success''")
      case False
      with shape have st: "status sr0 = ''failed''" by simp
      with assms sn es Inr obtain entry where
        "execute_steps py_str data_str tools rest c (f + 1) (rs @ [sr0]) (lg @ [entry]) w1
           = (Inr r, w')"
        by (auto simp: try_step_def failed_entry)
      with shape st show ?thesis
        by (intro that [of sr0 c "f + 1" entry w1]) auto
    next
      case True
      show ?thesis
      proof (cases "log_execution py_str data_str step_no ''success'' (data sr0) None")
        case logged: (Inr entry)
        with assms sn es Inr True have
          "execute_steps py_str data_str tools rest (c + 1) f (rs @ [sr0]) (lg @ [entry]) w1
             = (Inr r, w')"
          by (auto simp: try_step_def)
        with shape True es Inr show ?thesis
          by (intro that [of sr0 "c + 1" f entry w1]) auto
      next
        case raised: (Inl e)
        with assms sn es Inr True obtain entry where
          "execute_steps py_str data_str tools rest (c + 1) (f + 1) (rs @ [?unexpected e])
             (lg @ [entry]) w1 = (Inr r, w')"
          by (auto simp: try_step_def failed_entry)
        moreover from log_execution_raises [OF raised]
        have "summarize_result py_str data_str (data sr0) = Inl e" by simp
        ultimately show ?thesis
          using sn es Inr True
          by (intro that [of "?unexpected e" "c + 1" "f + 1" entry w1]) auto
      qed
    qed
  qed
qed

lemma execute_steps_tally:
  assumes "execute_steps py_str data_str tools ss c f rs lg w = (Inr r, w')"
  shows "success r = (0 < steps_completed r)
       \<and> (\<exists>new. results r = rs @ new
            \<and> list_all2 (\<lambda>step sr. py_get step ''step_number'' (JInt 0) = Inr (step_number sr)) ss new
            \<and> steps_failed r = f + length (filter (\<lambda>x. status x = ''failed'') new)
            \<and> c + length (filter (\<lambda>x. status x = ''success'') new) \<le> steps_completed r
            \<and> steps_completed r \<le> c + length ss
            \<and> length (filter (\<lambda>x. status x = ''success'') new)
                 + length (filter (\<lambda>x. status x = ''failed'') new) = length ss
            \<and> ((\<forall>v. \<exists>shown. data_str v = Inr shown) \<longrightarrow>
                 steps_completed r = c + length (filter (\<lambda>x. status x = ''success'') new)))
       \<and> length (execution_log r) = length lg + length ss"
  using assms
proof (induction ss arbitrary: c f rs lg w)
  case Nil
  then show ?case by auto
next
  case (Cons step rest)
  from Cons.prems obtain sr entry c' f' w1 where
    sn: "py_get step ''step_number'' (JInt 0) = Inr (step_number sr)"
    and run: "execute_steps py_str data_str tools rest c' f' (rs @ [sr]) (lg @ [entry]) w1
                = (Inr r, w')"
    and turn: "(status sr = ''success'' \<and> c' = c + 1 \<and> f' = f
        \<and> execute_step py_str tools step w = (Inr sr, w1))
     \<or> (status sr = ''failed'' \<and> c' = c \<and> f' = f + 1)
     \<or> (status sr = ''failed'' \<and> c' = c + 1 \<and> f' = f + 1
        \<and> (\<exists>sr0 e. execute_step py_str tools step w = (Inr sr0, w1)
               \<and> status sr0 = ''success''
               \<and> summarize_result py_str data_str (data sr0) = Inl e))"
    by (rule execute_steps_turn)
  from Cons.IH [OF run] obtain new where
    ih: "success r = (0 < steps_completed r)"
      "results r = (rs @ [sr]) @ new"
      "list_all2 (\<lambda>step sr. py_get step ''step_number'' (JInt 0) = Inr (step_number sr)) rest new"
      "steps_failed r = f' + length (filter (\<lambda>x. status x = ''failed'') new)"
      "c' + length (filter (\<lambda>x. status x = ''success'') new) \<le> steps_completed r"
      "steps_completed r \<le> c' + length rest"
      "length (filter (\<lambda>x. status x = ''success'') new)
         + length (filter (\<lambda>x. status x = ''failed'') new) = length rest"
      "(\<forall>v. \<exists>shown. data_str v = Inr shown) \<longrightarrow>
         steps_completed r = c' + length (filter (\<lambda>x. status x = ''success'') new)"
      "length (execution_log r) = length (lg @ [entry]) + length rest"
    by (elim conjE exE) simp
  have quiet: "\<not> (\<exists>sr0 e. summarize_result py_str data_str (data sr0) = Inl e)"
    if "\<forall>v. \<exists>shown. data_str v = Inr shown"
    using that summarize_result_raises [of py_str data_str]
    by (metis sum.distinct(1))
  have "results r = rs @ (sr # new)"
    using ih(2) by simp
  moreover have "list_all2 (\<lambda>step sr. py_get step ''step_number'' (JInt 0) = Inr (step_number sr))
      (step # rest) (sr # new)"
    using ih(3) sn by simp
  moreover have "steps_failed r = f + length (filter (\<lambda>x. status x = ''failed'') (sr # new))"
    using ih(4) turn by auto
  moreover have "c + length (filter (\<lambda>x. status x = ''success'') (sr # new)) \<le> steps_completed r"
    using ih(5) turn by auto
  moreover have "steps_completed r \<le> c + length (step # rest)"
    using ih(6) turn by auto
  moreover have "length (filter (\<lambda>x. status x = ''success'') (sr # new))
       + length (filter (\<lambda>x. status x = ''failed'') (sr # new)) = length (step # rest)"
    using ih(7) turn by auto
  moreover have "(\<forall>v. \<exists>shown. data_str v = Inr shown) \<longrightarrow>
      steps_completed r = c + length (filter (\<lambda>x. status x = ''success'') (sr # new))"
    using ih(8) turn quiet by auto
  moreover have "length (execution_log r) = length lg + length (step # rest)"
    using ih(9) by simp
  ultimately show ?case
    using ih(1) by blast
qed


lemma execute_steps_no_dict:
  "\<not> is_dict step \<Longrightarrow>
     \<exists>e. execute_steps py_str data_str tools (step # rest) c f rs lg w = (Inl e, w)"
  by (cases step) auto

lemma execute_plan_steps:
  assumes "execute_plan py_str data_str tools plan w = (Inr r, w')"
  shows "\<exists>steps. py_get plan ''steps'' JNull = Inr (JList steps) \<and> steps \<noteq> []
           \<and> execute_steps py_str data_str tools steps 0 0 [] [] w = (Inr r, w')"
proof -
  from assms obtain kvs where plan: "plan = JDict kvs"
    by (cases plan) (auto simp: execute_plan_def)
  from assms plan obtain steps where steps: "py_get plan ''steps'' JNull = Inr steps" "truthy steps"
    by (auto simp: execute_plan_def split: if_splits)
  show ?thesis
  proof (cases steps)
    case (JList xs)
    with assms plan steps show ?thesis
      by (auto simp: execute_plan_def split: if_splits option.splits)
  next
    case (JStr s)
    with steps obtain ch cs where "s = ch # cs" by (cases s) auto
    with JStr assms plan steps
      execute_steps_no_dict [of "JStr [ch]" py_str data_str tools _ 0 0 "[]" "[]" w]
    show ?thesis
      by (auto simp: execute_plan_def split: if_splits option.splits)
  next
    case (JDict d)
    with steps obtain kv d' where "d = kv # d'" by (cases d) auto
    with JDict assms plan steps
      execute_steps_no_dict [of "JStr (fst kv)" py_str data_str tools _ 0 0 "[]" "[]" w]
    show ?thesis
      by (auto simp: execute_plan_def split: if_splits option.splits)
  qed (use assms plan steps in \<open>auto simp: execute_plan_def split: if_splits option.splits\<close>)
qed






lemma station_number_long:
  "10 ^ int_max_str_digits \<le> \<bar>station_number\<bar>"
proof -
  have "(10 :: int) ^ int_max_str_digits \<le> 10 ^ (int_max_str_digits + 700)"
    by (rule power_increasing) simp_all
  then show ?thesis
    by (simp only: station_number_def power_abs abs_numeral)
qed

lemma station_step:
  "execute_step scenario_str station_tools (scenario_step 1 (JStr ''weather'') ''London'')
     \<lparr>ext = 0, sleeps = []\<rparr>
   = (Inr \<lparr>step_number = JInt 1, status = ''success'',
           data = JDict [(''city'', JInt station_number), (''temperature'', JInt 18)],
           error = None\<rparr>, \<lparr>ext = 1, sleeps = []\<rparr>)"
  by (simp add: execute_step_def scenario_step_def station_tools_def retry_with_backoff_def
        retry_step_return call_tool_method_def station_weather_def)

lemma station_log:
  "log_execution scenario_str limited_str (JInt 1) ''success''
     (JDict [(''city'', JInt station_number), (''temperature'', JInt 18)]) None
   = Inl (Exn ValueError ''Exceeds the limit (4300 digits) for integer string conversion'')"
  by (simp add: log_execution_def summarize_result_def limited_str_def station_number_long)



lemma execute_plan_tally_bounds:
  assumes "execute_plan py_str data_str tools plan w = (Inr r, w')"
  shows "\<exists>steps. py_get plan ''steps'' JNull = Inr (JList steps) \<and> steps \<noteq> []
           \<and> length (results r) = length steps
           \<and> steps_failed r = length (filter (\<lambda>x. status x = ''failed'') (results r))
           \<and> length steps \<le> steps_completed r + steps_failed r
           \<and> steps_completed r + steps_failed r \<le> 2 * length steps
           \<and> ((\<forall>v. \<exists>shown. data_str v = Inr shown) \<longrightarrow>
                steps_completed r + steps_failed r = length steps)"
proof -
  from execute_plan_steps [OF assms] obtain steps where
    s: "py_get plan ''steps'' JNull = Inr (JList steps)" "steps \<noteq> []"
    and run: "execute_steps py_str data_str tools steps 0 0 [] [] w = (Inr r, w')" by blast
  from execute_steps_tally [OF run]
  have t: "list_all2 (\<lambda>step sr. py_get step ''step_number'' (JInt 0) = Inr (step_number sr))
             steps (results r)"
      "steps_failed r = length (filter (\<lambda>x. status x = ''failed'') (results r))"
      "length (filter (\<lambda>x. status x = ''success'') (results r)) \<le> steps_completed r"
      "steps_completed r \<le> length steps"
      "length (filter (\<lambda>x. status x = ''success'') (results r))
         + length (filter (\<lambda>x. status x = ''failed'') (results r)) = length steps"
      "(\<forall>v. \<exists>shown. data_str v = Inr shown) \<longrightarrow>
         steps_completed r = length (filter (\<lambda>x. status x = ''success'') (results r))"
    by auto
  from t(1) have len: "length (results r) = length steps"
    by (auto dest: list_all2_lengthD)
  have "steps_failed r \<le> length steps"
    using t(2) len by (metis length_filter_le)
  with s t len show ?thesis
    by (intro exI [of _ steps]) auto
qed

text \<open>
  C2. The claim fails on the code: a plan of one step whose tool returns a value that
  cannot be printed. \<^verbatim>\<open>steps_completed += 1\<close> stands before the call that logs the
  success, inside the \<^verbatim>\<open>try\<close>; the call raises, and the \<^verbatim>\<open>except\<close> branch counts
  the same step as failed. The tallies add up to 2 for the one step, whose only result
  is \<^verbatim>\<open>failed\<close>, and \<open>success\<close> is \<^verbatim>\<open>True\<close>.
\<close>

theorem log_failure_counts_step_twice:
  "execute_plan scenario_str limited_str station_tools station_plan \<lparr>ext = 0, sleeps = []\<rparr>
   = (Inr \<lparr>success = True, steps_completed = 1, steps_failed = 1,
           results =
             [\<lparr>step_number = JInt 1, status = ''failed'', data = JNull,
               error = Some (''Unexpected error: ''
                 @ ''Exceeds the limit (4300 digits) for integer string conversion'')\<rparr>],
           execution_log =
             [''Step 1: FAILED - Unexpected error: ''
                @ ''Exceeds the limit (4300 digits) for integer string conversion'']\<rparr>,
      \<lparr>ext = 1, sleeps = []\<rparr>)"
proof -
  have number: "py_get (scenario_step 1 (JStr ''weather'') ''London'') ''step_number'' (JInt 0)
      = Inr (JInt 1)"
    by (simp add: scenario_step_def)
  have one: "scenario_str (JInt 1) = ''1''"
    by code_simp
  have entry: "log_execution scenario_str limited_str (JInt 1) ''failed'' JNull (Some msg)
      = Inr (''Step 1: FAILED - '' @ msg)" for msg
    by (simp add: log_execution_def one)
  show ?thesis
    by (simp add: execute_plan_def station_plan_def number try_step_def station_step station_log
          entry)
qed

theorem log_failure_counts_step_twice_witness:
  "\<exists>r w'. execute_plan scenario_str limited_str station_tools station_plan
            \<lparr>ext = 0, sleeps = []\<rparr> = (Inr r, w')
     \<and> steps_completed r + steps_failed r = 2
     \<and> map status (results r) = [''failed'']
     \<and> py_get station_plan ''steps'' JNull
         = Inr (JList [scenario_step 1 (JStr ''weather'') ''London''])"
  using log_failure_counts_step_twice
  by (simp add: station_plan_def)





section \<open>Verifier: properties\<close>

lemma bind_exn_Inr:
  "bind_exn m f = Inr y \<longleftrightarrow> (\<exists>x. m = Inr x \<and> f x = Inr y)"
  by (cases m) auto

lemma data_anomalies_no_empty_flag:
  assumes "truthy d" "data_anomalies py_str d anomalies = Inr out"
    and "JStr ''Empty result set returned'' \<notin> set anomalies"
  shows "JStr ''Empty result set returned'' \<notin> set out"
proof -
  from assms(1) have "\<not> (is_list d \<and> py_len d = Inr 0)"
    by (cases d) auto
  with assms(2,3) show ?thesis
    by (auto simp: data_anomalies_def bind_exn_Inr split: if_splits)
qed

lemma scan_results_no_empty_flag:
  assumes "scan_results py_str rs anomalies = Inr out"
    and "JStr ''Empty result set returned'' \<notin> set anomalies"
  shows "JStr ''Empty result set returned'' \<notin> set out"
  using assms
proof (induction rs arbitrary: anomalies)
  case Nil
  then show ?case by simp
next
  case (Cons result rest)
  show ?case
  proof (cases "py_get result ''status'' JNull")
    case (Inl e)
    with Cons.prems show ?thesis by simp
  next
    case st: (Inr st)
    show ?thesis
    proof (cases "st = JStr ''success''")
      case False
      with st Cons show ?thesis by simp
    next
      case True
      show ?thesis
      proof (cases "py_get result ''data'' JNull")
        case (Inl e)
        with st True Cons.prems show ?thesis by simp
      next
        case d: (Inr d)
        show ?thesis
        proof (cases "truthy d")
          case False
          with st True d Cons show ?thesis by simp
        next
          case t: True
          show ?thesis
          proof (cases "data_anomalies py_str d anomalies")
            case (Inl e)
            with st True d t Cons.prems show ?thesis by simp
          next
            case (Inr anomalies')
            from data_anomalies_no_empty_flag [OF t Inr Cons.prems(2)]
            have "JStr ''Empty result set returned'' \<notin> set anomalies'" .
            moreover from st True d t Inr Cons.prems(1)
            have "scan_results py_str rest anomalies' = Inr out" by simp
            ultimately show ?thesis by (rule Cons.IH [rotated])
          qed
        qed
      qed
    qed
  qed
qed

lemma check_for_anomalies_never_flags_empty:
  "check_for_anomalies py_str execution = Inr out
     \<Longrightarrow> JStr ''Empty result set returned'' \<notin> set out"
  by (auto simp: check_for_anomalies_def bind_exn_Inr dest: scan_results_no_empty_flag)

text \<open>
  C3. The claim fails on the code: an execution whose only step succeeded with the empty
  list as its data. \<^verbatim>\<open>if not data: continue\<close> leaves the loop body before the test for
  an empty list, so the scan finds no anomaly, \<^verbatim>\<open>verify_results\<close> returns with no issue
  and \<open>is_correct\<close> is \<^verbatim>\<open>True\<close>.
\<close>

theorem empty_result_set_not_flagged:
  "check_for_anomalies scenario_str empty_search_execution = Inr []
   \<and> (case verify_results scenario_str quiet_llm search_plan empty_search_execution () of
         (Inr r, l') \<Rightarrow> issues r = [] \<and> is_correct r = JBool True
       | (Inl e, l') \<Rightarrow> False)"
  by code_simp

theorem empty_result_set_not_flagged_witness:
  "JStr ''Empty result set returned''
     \<notin> set (case check_for_anomalies scenario_str empty_search_execution of
               Inr out \<Rightarrow> out | Inl e \<Rightarrow> [])"
  using empty_result_set_not_flagged by simp

lemma verify_results_returns:
  assumes "verify_results py_str llm plan execution l = (Inr r, l')"
  shows "\<exists>found extra ok.
           collect_issues py_str plan execution = Inr (is_complete r, found)
         \<and> py_get execution ''success'' (JBool False) = Inr ok
         \<and> issues r = found @ extra
         \<and> is_correct r = (if issues r = [] then ok else JBool False)"
  using assms
  by (auto simp: verify_results_def split: if_splits sum.splits prod.splits)

lemma collect_issues_found:
  assumes "collect_issues py_str plan execution = Inr (all_done, found)"
  shows "\<exists>failed any_failed anomalies.
           py_get execution ''steps_failed'' (JInt 0) = Inr failed
         \<and> py_gt_int failed 0 = Inr any_failed
         \<and> check_for_anomalies py_str execution = Inr anomalies
         \<and> (found = [] \<longleftrightarrow> \<not> any_failed \<and> all_done \<and> anomalies = [])"
  using assms
  by (auto simp: collect_issues_def bind_exn_Inr)

text \<open>
  C7. Whenever \<^verbatim>\<open>verify_results\<close> returns, \<open>is_correct\<close> is the value of
  \<^verbatim>\<open>execution.get("success", False)\<close> when the returned issues are empty and
  \<^verbatim>\<open>False\<close> otherwise, so it is true exactly when there is no issue and the execution
  succeeded. A positive \<^verbatim>\<open>steps_failed\<close>, an incomplete execution and a detected
  anomaly each make it false.
\<close>

theorem is_correct_iff_no_issues_and_success:
  assumes "verify_results py_str llm plan execution l = (Inr r, l')"
  shows "\<exists>ok. py_get execution ''success'' (JBool False) = Inr ok
           \<and> is_correct r = (if issues r = [] then ok else JBool False)
           \<and> truthy (is_correct r) = (issues r = [] \<and> truthy ok)
           \<and> (\<forall>failed. py_get execution ''steps_failed'' (JInt 0) = Inr failed
                  \<and> py_gt_int failed 0 = Inr True \<longrightarrow> \<not> truthy (is_correct r))
           \<and> (\<not> is_complete r \<longrightarrow> \<not> truthy (is_correct r))
           \<and> (\<forall>anomalies. check_for_anomalies py_str execution = Inr anomalies
                  \<and> anomalies \<noteq> [] \<longrightarrow> \<not> truthy (is_correct r))"
proof -
  from verify_results_returns [OF assms] obtain found extra ok where
    c: "collect_issues py_str plan execution = Inr (is_complete r, found)"
    and ok: "py_get execution ''success'' (JBool False) = Inr ok"
    and i: "issues r = found @ extra"
    and v: "is_correct r = (if issues r = [] then ok else JBool False)"
    by blast
  from collect_issues_found [OF c] obtain failed any_failed anomalies where
    f: "py_get execution ''steps_failed'' (JInt 0) = Inr failed"
      "py_gt_int failed 0 = Inr any_failed"
      "check_for_anomalies py_str execution = Inr anomalies"
      "found = [] \<longleftrightarrow> \<not> any_failed \<and> is_complete r \<and> anomalies = []"
    by blast
  have t: "truthy (is_correct r) = (issues r = [] \<and> truthy ok)"
    using v by simp
  have "\<not> truthy (is_correct r)" if "any_failed \<or> \<not> is_complete r \<or> anomalies \<noteq> []"
    using that t i f(4) by auto
  with ok v t f(1-3) show ?thesis
    by (intro exI [of _ ok]) auto
qed

theorem is_correct_iff_no_issues_and_success_witness:
  "\<exists>r l'. verify_results scenario_str quiet_llm weather_plan partial_execution () = (Inr r, l')
     \<and> issues r = [JStr ''1 step(s) failed during execution'',
                    JStr ''Only 1 of 2 steps completed successfully'']
     \<and> is_correct r = JBool False
     \<and> (\<exists>ok. py_get partial_execution ''success'' (JBool False) = Inr ok
           \<and> is_correct r = (if issues r = [] then ok else JBool False)
           \<and> truthy (is_correct r) = (issues r = [] \<and> truthy ok))"
proof -
  have "case verify_results scenario_str quiet_llm weather_plan partial_execution () of
          (Inr r, l') \<Rightarrow>
            issues r = [JStr ''1 step(s) failed during execution'',
                        JStr ''Only 1 of 2 steps completed successfully'']
            \<and> is_correct r = JBool False
        | (Inl e, l') \<Rightarrow> False"
    by code_simp
  then obtain r l' where
    h: "verify_results scenario_str quiet_llm weather_plan partial_execution () = (Inr r, l')"
    and i: "issues r = [JStr ''1 step(s) failed during execution'',
                        JStr ''Only 1 of 2 steps completed successfully'']"
      "is_correct r = JBool False"
    by (auto split: prod.splits sum.splits)
  from is_correct_iff_no_issues_and_success [OF h] obtain ok where
    "py_get partial_execution ''success'' (JBool False) = Inr ok"
    "is_correct r = (if issues r = [] then ok else JBool False)"
    "truthy (is_correct r) = (issues r = [] \<and> truthy ok)"
    by blast
  with h i show ?thesis
    by (intro exI [of _ r] exI [of _ l'] conjI exI [of _ ok])
qed





section \<open>Planner: properties\<close>

lemma keyword_found_iff:
  "keyword_found ks query_lower = (\<exists>k \<in> set ks. str_in k query_lower)"
  by (induction ks) auto

text \<open>
  C4, as the code has it. The keyword list of \<^verbatim>\<open>_detect_comparison_intent\<close> has eleven
  entries, among them \<^verbatim>\<open>" and "\<close> and \<^verbatim>\<open>" or "\<close>: the flag is true exactly when the
  lower-cased query contains one of the eleven, and the test for a comma with a
  conjunction never decides.
\<close>

theorem detect_comparison_intent_keywords:
  "detect_comparison_intent user_query =
     (str_in ''compare'' (str_lower user_query)
      \<or> str_in ''comparison'' (str_lower user_query)
      \<or> str_in ''vs'' (str_lower user_query)
      \<or> str_in ''versus'' (str_lower user_query)
      \<or> str_in ''difference between'' (str_lower user_query)
      \<or> str_in ''differences between'' (str_lower user_query)
      \<or> str_in ''which is better'' (str_lower user_query)
      \<or> str_in ''better than'' (str_lower user_query)
      \<or> str_in ''contrast'' (str_lower user_query)
      \<or> str_in '' and '' (str_lower user_query)
      \<or> str_in '' or '' (str_lower user_query))"
  by (auto simp: detect_comparison_intent_def comparison_keywords_def Let_def)

text \<open>
  C4 as claimed fails: a query with \<^verbatim>\<open>" and "\<close>, no comma and none of the seven keywords
  of the claim is flagged.
\<close>

theorem comparison_flag_counterexample:
  "detect_comparison_intent ''weather in london and paris''
   \<and> str_in '' and '' ''weather in london and paris''
   \<and> \<not> str_in '','' ''weather in london and paris''
   \<and> \<not> str_in ''compare'' ''weather in london and paris''
   \<and> \<not> str_in ''vs'' ''weather in london and paris''
   \<and> \<not> str_in ''versus'' ''weather in london and paris''
   \<and> \<not> str_in ''difference between'' ''weather in london and paris''
   \<and> \<not> str_in ''which is better'' ''weather in london and paris''
   \<and> \<not> str_in ''better than'' ''weather in london and paris''
   \<and> \<not> str_in ''contrast'' ''weather in london and paris''"
  by code_simp


lemma all_less_Suc_shift:
  "(\<forall>k < Suc n. P k) = (P 0 \<and> (\<forall>k < n. P (Suc k)))"
  by (metis less_Suc_eq_0_disj)

lemma validate_steps_accepts_iff:
  "validate_steps i step_list = Inr True \<longleftrightarrow>
     (\<forall>k < length step_list.
        fields_present step_required_fields (step_list ! k) = Inr True
        \<and> (\<exists>v. py_get (step_list ! k) ''step_number'' JNull = Inr v \<and> py_eq_int v (int (i + k) + 1))
        \<and> (\<exists>tool. py_get (step_list ! k) ''tool'' JNull = Inr tool \<and> in_names tool valid_tools)
        \<and> (\<exists>parameters. py_get (step_list ! k) ''parameters'' JNull = Inr parameters
               \<and> is_dict parameters))"
proof (induction step_list arbitrary: i)
  case Nil
  show ?case by simp
next
  case (Cons step rest)
  show ?case
    unfolding length_Cons all_less_Suc_shift
    using Cons.IH [of "Suc i"]
    by (auto split: sum.splits)
qed

lemma steps_accepted_iff:
  "(truthy steps \<and> is_list steps \<and> bind_exn (py_iter steps) (validate_steps 0) = Inr True)
     = (\<exists>step_list. steps = JList step_list \<and> step_list \<noteq> []
          \<and> validate_steps 0 step_list = Inr True)"
  by (cases steps) auto

lemma validate_plan_body_iff:
  "validate_plan_body plan = Inr True \<longleftrightarrow>
     fields_present required_fields plan = Inr True
     \<and> (\<exists>intent. py_get plan ''intent'' JNull = Inr intent \<and> in_names intent valid_intents)
     \<and> (\<exists>step_list. py_get plan ''steps'' (JList []) = Inr (JList step_list) \<and> step_list \<noteq> []
           \<and> validate_steps 0 step_list = Inr True)"
proof (cases "fields_present required_fields plan")
  case (Inl e)
  then show ?thesis by (simp add: validate_plan_body_def)
next
  case present: (Inr present)
  show ?thesis
  proof (cases "py_get plan ''intent'' JNull")
    case (Inl e)
    then show ?thesis using present by (simp add: validate_plan_body_def)
  next
    case intent: (Inr intent)
    show ?thesis
    proof (cases "py_get plan ''steps'' (JList [])")
      case (Inl e)
      then show ?thesis using present intent by (simp add: validate_plan_body_def)
    next
      case (Inr steps)
      have "validate_plan_body plan = Inr True \<longleftrightarrow>
              present \<and> in_names intent valid_intents
              \<and> (truthy steps \<and> is_list steps
                   \<and> bind_exn (py_iter steps) (validate_steps 0) = Inr True)"
        using present intent Inr by (auto simp: validate_plan_body_def)
      then show ?thesis
        unfolding steps_accepted_iff using present intent Inr by auto
    qed
  qed
qed

lemma validate_plan_iff:
  "validate_plan plan \<longleftrightarrow>
     fields_present required_fields plan = Inr True
     \<and> (\<exists>intent. py_get plan ''intent'' JNull = Inr intent \<and> in_names intent valid_intents)
     \<and> (\<exists>step_list. py_get plan ''steps'' (JList []) = Inr (JList step_list) \<and> step_list \<noteq> []
           \<and> validate_steps 0 step_list = Inr True)"
proof -
  have "validate_plan plan \<longleftrightarrow> validate_plan_body plan = Inr True"
    by (simp add: validate_plan_def split: sum.splits)
  then show ?thesis
    unfolding validate_plan_body_iff .
qed

text \<open>
  C5. \<^verbatim>\<open>create_plan\<close> on a plan the model returned, whose \<^verbatim>\<open>steps\<close> is a list: a step whose
  \<^verbatim>\<open>step_number\<close> is not its position counted from 1 makes validation fail and
  \<^verbatim>\<open>create_plan\<close> raise \<^verbatim>\<open>ValueError("Generated plan failed validation")\<close>; a plan that
  passes the other checks and is numbered 1..N is returned. Numbers are compared with
  Python's \<^verbatim>\<open>!=\<close>.
\<close>

theorem create_plan_checks_step_numbers:
  assumes "str_strip user_query \<noteq> []"
      and "llm (build_planning_prompt (str_strip user_query)) 2000 l = (Inr plan, l')"
      and "py_get plan ''steps'' (JList []) = Inr (JList step_list)"
  shows "(k < length step_list
          \<and> \<not> (\<exists>v. py_get (step_list ! k) ''step_number'' JNull = Inr v
                    \<and> py_eq_int v (int k + 1))
          \<longrightarrow> \<not> validate_plan plan
              \<and> create_plan llm user_query l
                  = (Inl (Exn ValueError ''Generated plan failed validation''), l'))
       \<and> (fields_present required_fields plan = Inr True
          \<and> (\<exists>intent. py_get plan ''intent'' JNull = Inr intent \<and> in_names intent valid_intents)
          \<and> step_list \<noteq> []
          \<and> (\<forall>j < length step_list.
                fields_present step_required_fields (step_list ! j) = Inr True
                \<and> (\<exists>tool. py_get (step_list ! j) ''tool'' JNull = Inr tool
                      \<and> in_names tool valid_tools)
                \<and> (\<exists>parameters. py_get (step_list ! j) ''parameters'' JNull = Inr parameters
                      \<and> is_dict parameters)
                \<and> (\<exists>v. py_get (step_list ! j) ''step_number'' JNull = Inr v
                      \<and> py_eq_int v (int j + 1)))
          \<longrightarrow> validate_plan plan \<and> create_plan llm user_query l = (Inr plan, l'))"
proof -
  have query: "user_query \<noteq> []"
    using assms(1) by (auto simp: str_strip_def)
  have run: "create_plan llm user_query l =
               (if validate_plan plan then (Inr plan, l')
                else (Inl (Exn ValueError ''Generated plan failed validation''), l'))"
    using assms(1,2) query by (simp add: create_plan_def Let_def)
  have accepted: "validate_plan plan \<longleftrightarrow>
      fields_present required_fields plan = Inr True
      \<and> (\<exists>intent. py_get plan ''intent'' JNull = Inr intent \<and> in_names intent valid_intents)
      \<and> step_list \<noteq> []
      \<and> (\<forall>j < length step_list.
            fields_present step_required_fields (step_list ! j) = Inr True
            \<and> (\<exists>v. py_get (step_list ! j) ''step_number'' JNull = Inr v
                  \<and> py_eq_int v (int (0 + j) + 1))
            \<and> (\<exists>tool. py_get (step_list ! j) ''tool'' JNull = Inr tool
                  \<and> in_names tool valid_tools)
            \<and> (\<exists>parameters. py_get (step_list ! j) ''parameters'' JNull = Inr parameters
                  \<and> is_dict parameters))"
    unfolding validate_plan_iff validate_steps_accepts_iff [symmetric]
    using assms(3) by auto
  have rejected: "\<not> validate_plan plan"
    if "k < length step_list"
      and "\<not> (\<exists>v. py_get (step_list ! k) ''step_number'' JNull = Inr v
                  \<and> py_eq_int v (int k + 1))"
    using that unfolding accepted by auto
  have passes: "validate_plan plan"
    if "fields_present required_fields plan = Inr True"
      and "\<exists>intent. py_get plan ''intent'' JNull = Inr intent \<and> in_names intent valid_intents"
      and "step_list \<noteq> []"
      and "\<forall>j < length step_list.
                fields_present step_required_fields (step_list ! j) = Inr True
                \<and> (\<exists>tool. py_get (step_list ! j) ''tool'' JNull = Inr tool
                      \<and> in_names tool valid_tools)
                \<and> (\<exists>parameters. py_get (step_list ! j) ''parameters'' JNull = Inr parameters
                      \<and> is_dict parameters)
                \<and> (\<exists>v. py_get (step_list ! j) ''step_number'' JNull = Inr v
                      \<and> py_eq_int v (int j + 1))"
    using that unfolding accepted by simp
  show ?thesis
    using rejected passes run by auto
qed

theorem create_plan_checks_step_numbers_witness:
  "create_plan (replying (numbered_plan [JInt 1, JInt 3])) ''find isabelle repositories'' ()
     = (Inl (Exn ValueError ''Generated plan failed validation''), ())
   \<and> create_plan (replying (numbered_plan [JInt 2, JInt 1])) ''find isabelle repositories'' ()
     = (Inl (Exn ValueError ''Generated plan failed validation''), ())
   \<and> create_plan (replying (numbered_plan [JInt 1, JInt 1])) ''find isabelle repositories'' ()
     = (Inl (Exn ValueError ''Generated plan failed validation''), ())
   \<and> create_plan (replying (numbered_plan [JInt 1, JInt 2, JInt 3]))
       ''find isabelle repositories'' ()
     = (Inr (numbered_plan [JInt 1, JInt 2, JInt 3]), ())"
proof -
  have query: "str_strip ''find isabelle repositories'' \<noteq> []"
    by code_simp
  have reply: "replying plan (build_planning_prompt (str_strip ''find isabelle repositories''))
                 2000 () = (Inr plan, ())" for plan
    by (simp add: replying_def)
  have steps: "py_get (numbered_plan numbers) ''steps'' (JList [])
                 = Inr (JList (map numbered_step numbers))" for numbers
    by (simp add: numbered_plan_def)
  have number: "py_get (numbered_step n) ''step_number'' JNull = Inr n" for n
    by (simp add: numbered_step_def)
  have gap: "create_plan (replying (numbered_plan [JInt 1, JInt 3]))
               ''find isabelle repositories'' ()
             = (Inl (Exn ValueError ''Generated plan failed validation''), ())"
    using create_plan_checks_step_numbers
            [where llm = "replying (numbered_plan [JInt 1, JInt 3])" and l = "()" and l' = "()"
               and user_query = "''find isabelle repositories''"
               and plan = "numbered_plan [JInt 1, JInt 3]"
               and step_list = "map numbered_step [JInt 1, JInt 3]" and k = 1,
             OF query reply steps]
    by (simp add: number py_eq_int_def)
  have swapped: "create_plan (replying (numbered_plan [JInt 2, JInt 1]))
               ''find isabelle repositories'' ()
             = (Inl (Exn ValueError ''Generated plan failed validation''), ())"
    using create_plan_checks_step_numbers
            [where llm = "replying (numbered_plan [JInt 2, JInt 1])" and l = "()" and l' = "()"
               and user_query = "''find isabelle repositories''"
               and plan = "numbered_plan [JInt 2, JInt 1]"
               and step_list = "map numbered_step [JInt 2, JInt 1]" and k = 0,
             OF query reply steps]
    by (simp add: number py_eq_int_def)
  have repeated: "create_plan (replying (numbered_plan [JInt 1, JInt 1]))
               ''find isabelle repositories'' ()
             = (Inl (Exn ValueError ''Generated plan failed validation''), ())"
    using create_plan_checks_step_numbers
            [where llm = "replying (numbered_plan [JInt 1, JInt 1])" and l = "()" and l' = "()"
               and user_query = "''find isabelle repositories''"
               and plan = "numbered_plan [JInt 1, JInt 1]"
               and step_list = "map numbered_step [JInt 1, JInt 1]" and k = 1,
             OF query reply steps]
    by (simp add: number py_eq_int_def)
  have shape: "fields_present required_fields (numbered_plan numbers) = Inr True
      \<and> (\<exists>intent. py_get (numbered_plan numbers) ''intent'' JNull = Inr intent
            \<and> in_names intent valid_intents)" for numbers
    by (simp add: numbered_plan_def required_fields_def valid_intents_def)
  have step: "fields_present step_required_fields (numbered_step n) = Inr True
      \<and> (\<exists>tool. py_get (numbered_step n) ''tool'' JNull = Inr tool \<and> in_names tool valid_tools)
      \<and> (\<exists>parameters. py_get (numbered_step n) ''parameters'' JNull = Inr parameters
            \<and> is_dict parameters)" for n
    by (simp add: numbered_step_def step_required_fields_def valid_tools_def)
  have sequential: "create_plan (replying (numbered_plan [JInt 1, JInt 2, JInt 3]))
               ''find isabelle repositories'' ()
             = (Inr (numbered_plan [JInt 1, JInt 2, JInt 3]), ())"
    using create_plan_checks_step_numbers
            [where llm = "replying (numbered_plan [JInt 1, JInt 2, JInt 3])" and l = "()" and l' = "()"
               and user_query = "''find isabelle repositories''"
               and plan = "numbered_plan [JInt 1, JInt 2, JInt 3]"
               and step_list = "map numbered_step [JInt 1, JInt 2, JInt 3]" and k = 0,
             OF query reply steps]
    by (simp add: shape step number py_eq_int_def all_less_Suc_shift)
  show ?thesis
    using gap swapped repeated sequential by simp
qed

section \<open>LLM client: properties\<close>

lemma backoff_seconds:
  "(of_int (calculate_backoff (int k)) :: rat) = min (2 ^ k) 60"
  by (simp add: calculate_backoff_def of_int_min)

text \<open>
  The loop of \<^verbatim>\<open>generate_completion\<close> from attempt \<open>a\<close> on, when each of the calls
  \<open>a\<close> to \<open>n - 1\<close> raises an error that one of the three typed branches retries: every
  attempt sleeps, the loop runs out, and the exception after the loop is raised.
\<close>

lemma completion_loop_typed:
  assumes "provider c = ''openai''" "openai_available c" "max_retries c = int n"
    and "\<forall>k < n. call (st k) = (Inl (es k), st (Suc k))
           \<and> (exn_class_of (es k) = RateLimitError \<or> exn_class_of (es k) = APIConnectionError
                \<or> (\<exists>code. exn_class_of (es k) = APIError (Some code) \<and> 500 \<le> code \<and> code < 600))"
    and "a \<le> n" "ext w = st a"
  shows "completion_loop py_str c call (int a) last_exc w
       = (Inl (Exn PlainException
            (''Failed after '' @ py_str (JInt (int n)) @ '' attempts. Last error: ''
               @ (if a < n then exn_str (es (n - 1))
                  else (case last_exc of None \<Rightarrow> py_str JNull | Some e \<Rightarrow> exn_str e)))),
          w\<lparr>ext := st n, sleeps := sleeps w @ map (\<lambda>k. min (2 ^ k) 60) [a..<n]\<rparr>)"
  using assms(5,6)
proof (induction "n - a" arbitrary: a last_exc w)
  case 0
  then have "a = n" by simp
  with 0 assms(3) show ?case
    by (subst completion_loop.simps) simp
next
  case (Suc d)
  then have a: "a < n" and d: "d = n - Suc a" by simp_all
  from assms(4) a have call: "call (st a) = (Inl (es a), st (Suc a))"
    and typed: "exn_class_of (es a) = RateLimitError \<or> exn_class_of (es a) = APIConnectionError
      \<or> (\<exists>code. exn_class_of (es a) = APIError (Some code) \<and> 500 \<le> code \<and> code < 600)"
    by simp_all
  from typed assms(1,2) have again: "retries c (int a) (es a)"
    by (auto simp: retries_def)
  let ?w = "sleep (of_int (calculate_backoff (int a))) (w\<lparr>ext := st (Suc a)\<rparr>)"
  have step: "completion_loop py_str c call (int a) last_exc w
      = completion_loop py_str c call (int (Suc a)) (Some (es a)) ?w"
    using a assms(1,3) call again Suc.prems(2)
    by (subst completion_loop.simps) (simp add: add.commute)
  have ext: "ext ?w = st (Suc a)"
    by (simp add: sleep_def)
  from a have le: "Suc a \<le> n" by simp
  have last_one: "\<not> Suc a < n \<longrightarrow> es (n - Suc 0) = es a"
  proof
    assume "\<not> Suc a < n"
    with a have "n - Suc 0 = a" by arith
    then show "es (n - Suc 0) = es a" by simp
  qed
  have range: "[a..<n] = a # [Suc a..<n]"
    using a by (simp add: upt_conv_Cons)
  show ?case
    unfolding step Suc.hyps(1) [OF d le ext, of "Some (es a)"]
    using a last_one
    by (simp add: sleep_def backoff_seconds range)
qed

text \<open>
  The same loop when every error is retried for a keyword of its message only: that
  branch asks for \<^verbatim>\<open>attempt < self.max_retries - 1\<close>, so the last attempt raises its own
  error again and nothing sleeps after it.
\<close>

lemma completion_loop_keyword:
  assumes "provider c = ''gemini''" "max_retries c = int n"
    and "\<forall>k < n. call (st k) = (Inl (es k), st (Suc k)) \<and> is_retryable (es k)"
    and "a < n" "ext w = st a"
  shows "completion_loop py_str c call (int a) last_exc w
       = (Inl (es (n - 1)),
          w\<lparr>ext := st n, sleeps := sleeps w @ map (\<lambda>k. min (2 ^ k) 60) [a..<n - 1]\<rparr>)"
  using assms(4,5)
proof (induction "n - a" arbitrary: a last_exc w)
  case 0
  then show ?case by simp
next
  case (Suc d)
  then have a: "a < n" and d: "d = n - Suc a" by simp_all
  from assms(3) a have call: "call (st a) = (Inl (es a), st (Suc a))"
    and keyword: "is_retryable (es a)"
    by simp_all
  show ?case
  proof (cases "Suc a < n")
    case False
    with a have last_attempt: "Suc a = n" by simp
    then have "\<not> retries c (int a) (es a)"
      using assms(1,2) by (auto simp: retries_def keyword_retry_def)
    then show ?thesis
      using a assms(1,2) call Suc.prems(2) last_attempt
      by (subst completion_loop.simps) auto
  next
    case True
    then have again: "retries c (int a) (es a)"
      using assms(1,2) keyword by (auto simp: retries_def keyword_retry_def)
    let ?w = "sleep (of_int (calculate_backoff (int a))) (w\<lparr>ext := st (Suc a)\<rparr>)"
    have step: "completion_loop py_str c call (int a) last_exc w
        = completion_loop py_str c call (int (Suc a)) (Some (es a)) ?w"
      using a assms(1,2) call again Suc.prems(2)
      by (subst completion_loop.simps) (simp add: add.commute)
    have ext: "ext ?w = st (Suc a)"
      by (simp add: sleep_def)
    have range: "[a..<n - 1] = a # [Suc a..<n - 1]"
      using True by (simp add: upt_conv_Cons)
    show ?thesis
      unfolding step Suc.hyps(1) [OF d True ext, of "Some (es a)"]
      using range
      by (simp add: sleep_def backoff_seconds)
  qed
qed

text \<open>
  C9, as the code has it. \<open>st\<close> and \<open>es\<close> are the states and the errors of the \<open>n\<close>
  failing calls, \<open>n\<close> the client's \<^verbatim>\<open>max_retries\<close>. With the OpenAI provider and errors
  of the typed transient kinds (\<^verbatim>\<open>RateLimitError\<close>, \<^verbatim>\<open>APIConnectionError\<close>, \<^verbatim>\<open>APIError\<close>
  with a 5xx status) the client sleeps \<open>min(2^attempt, 60)\<close> seconds after each of the
  \<open>n\<close> attempts and raises one terminal exception with the text of the last error. With
  the Gemini provider and errors retried for a keyword of their message the client
  sleeps after the attempts before the last and raises the last error itself.
\<close>

theorem generate_completion_exhausted:
  assumes "messages \<noteq> []" "max_retries c = int n" "0 < n"
    and "\<forall>k < n. call (st k) = (Inl (es k), st (Suc k))"
  shows "(provider c = ''openai'' \<and> openai_available c
          \<and> (\<forall>k < n. exn_class_of (es k) = RateLimitError
                \<or> exn_class_of (es k) = APIConnectionError
                \<or> (\<exists>code. exn_class_of (es k) = APIError (Some code) \<and> 500 \<le> code \<and> code < 600))
          \<longrightarrow> generate_completion py_str c call messages \<lparr>ext = st 0, sleeps = sl\<rparr>
              = (Inl (Exn PlainException
                   (''Failed after '' @ py_str (JInt (int n)) @ '' attempts. Last error: ''
                      @ exn_str (es (n - 1)))),
                 \<lparr>ext = st n, sleeps = sl @ map (\<lambda>k. min (2 ^ k) 60) [0..<n]\<rparr>))
       \<and> (provider c = ''gemini'' \<and> (\<forall>k < n. is_retryable (es k))
          \<longrightarrow> generate_completion py_str c call messages \<lparr>ext = st 0, sleeps = sl\<rparr>
              = (Inl (es (n - 1)),
                 \<lparr>ext = st n, sleeps = sl @ map (\<lambda>k. min (2 ^ k) 60) [0..<n - 1]\<rparr>))"
proof (intro conjI impI)
  assume typed: "provider c = ''openai'' \<and> openai_available c
          \<and> (\<forall>k < n. exn_class_of (es k) = RateLimitError
                \<or> exn_class_of (es k) = APIConnectionError
                \<or> (\<exists>code. exn_class_of (es k) = APIError (Some code) \<and> 500 \<le> code \<and> code < 600))"
  with assms(4) have calls: "\<forall>k < n. call (st k) = (Inl (es k), st (Suc k))
           \<and> (exn_class_of (es k) = RateLimitError \<or> exn_class_of (es k) = APIConnectionError
                \<or> (\<exists>code. exn_class_of (es k) = APIError (Some code) \<and> 500 \<le> code \<and> code < 600))"
    by simp
  have "completion_loop py_str c call (int 0) None \<lparr>ext = st 0, sleeps = sl\<rparr>
      = (Inl (Exn PlainException
            (''Failed after '' @ py_str (JInt (int n)) @ '' attempts. Last error: ''
               @ (if 0 < n then exn_str (es (n - 1))
                  else (case None of None \<Rightarrow> py_str JNull | Some e \<Rightarrow> exn_str e)))),
          \<lparr>ext = st 0, sleeps = sl\<rparr>
            \<lparr>ext := st n,
             sleeps := sleeps \<lparr>ext = st 0, sleeps = sl\<rparr> @ map (\<lambda>k. min (2 ^ k) 60) [0..<n]\<rparr>)"
    using typed assms(2) calls
    by (intro completion_loop_typed) simp_all
  with assms(1,3)
  show "generate_completion py_str c call messages \<lparr>ext = st 0, sleeps = sl\<rparr>
              = (Inl (Exn PlainException
                   (''Failed after '' @ py_str (JInt (int n)) @ '' attempts. Last error: ''
                      @ exn_str (es (n - 1)))),
                 \<lparr>ext = st n, sleeps = sl @ map (\<lambda>k. min (2 ^ k) 60) [0..<n]\<rparr>)"
    by (simp add: generate_completion_def)
next
  assume keyword: "provider c = ''gemini'' \<and> (\<forall>k < n. is_retryable (es k))"
  with assms(4) have calls:
    "\<forall>k < n. call (st k) = (Inl (es k), st (Suc k)) \<and> is_retryable (es k)"
    by simp
  have "completion_loop py_str c call (int 0) None \<lparr>ext = st 0, sleeps = sl\<rparr>
      = (Inl (es (n - 1)),
          \<lparr>ext = st 0, sleeps = sl\<rparr>
            \<lparr>ext := st n,
             sleeps := sleeps \<lparr>ext = st 0, sleeps = sl\<rparr> @ map (\<lambda>k. min (2 ^ k) 60) [0..<n - 1]\<rparr>)"
    using keyword assms(2,3) calls
    by (intro completion_loop_keyword) simp_all
  with assms(1)
  show "generate_completion py_str c call messages \<lparr>ext = st 0, sleeps = sl\<rparr>
              = (Inl (es (n - 1)),
                 \<lparr>ext = st n, sleeps = sl @ map (\<lambda>k. min (2 ^ k) 60) [0..<n - 1]\<rparr>)"
    by (simp add: generate_completion_def)
qed

theorem generate_completion_exhausted_witness:
  "generate_completion scenario_str openai_client
       (raising [rate_limit_error, connection_error, server_error]) [''Plan this''] \<lparr>ext = 0, sleeps = []\<rparr>
     = (Inl (Exn PlainException ''Failed after 3 attempts. Last error: The server is overloaded''),
        \<lparr>ext = 3, sleeps = [1, 2, 4]\<rparr>)
   \<and> generate_completion scenario_str gemini_client
       (raising [quota_error, quota_error, quota_error]) [''Plan this''] \<lparr>ext = 0, sleeps = []\<rparr>
     = (Inl quota_error, \<lparr>ext = 3, sleeps = [1, 2]\<rparr>)"
proof -
  let ?typed = "[rate_limit_error, connection_error, server_error]"
  let ?quota = "[quota_error, quota_error, quota_error]"
  have calls: "\<forall>k < 3. raising errors (id k) = (Inl ((\<lambda>k. errors ! k) k), id (Suc k))"
    if "length errors = 3" for errors
    using that by (simp add: raising_def)
  have classes: "\<forall>k < 3. exn_class_of (?typed ! k) = RateLimitError
      \<or> exn_class_of (?typed ! k) = APIConnectionError
      \<or> (\<exists>code. exn_class_of (?typed ! k) = APIError (Some code) \<and> 500 \<le> code \<and> code < 600)"
    by (simp add: all_less_Suc_shift numeral_3_eq_3 rate_limit_error_def connection_error_def
          server_error_def)
  have quota: "is_retryable quota_error"
    by code_simp
  then have by_keyword: "\<forall>k < 3. is_retryable (?quota ! k)"
    by (simp add: all_less_Suc_shift numeral_3_eq_3)
  have three: "scenario_str (JInt (int 3)) = ''3''"
    by code_simp
  have range: "map (\<lambda>k. min (2 ^ k) 60) [0..<3] = [1, 2, 4 :: rat]"
    "map (\<lambda>k. min (2 ^ k) 60) [0..<3 - 1] = [1, 2 :: rat]"
    by (simp_all add: upt_rec numeral_3_eq_3)
  have typed_run: "generate_completion scenario_str openai_client (raising ?typed) [''Plan this'']
        \<lparr>ext = id 0, sleeps = []\<rparr>
      = (Inl (Exn PlainException
           (''Failed after '' @ scenario_str (JInt (int 3)) @ '' attempts. Last error: ''
              @ exn_str (?typed ! (3 - 1)))),
         \<lparr>ext = id 3, sleeps = [] @ map (\<lambda>k. min (2 ^ k) 60) [0..<3]\<rparr>)"
    using generate_completion_exhausted
      [where messages = "[''Plan this'']" and c = openai_client and n = 3
         and call = "raising ?typed" and st = id and es = "\<lambda>k. ?typed ! k"
         and py_str = scenario_str and sl = "[]",
       THEN conjunct1]
      calls [of ?typed] classes
    by (simp add: openai_client_def)
  have keyword_run: "generate_completion scenario_str gemini_client (raising ?quota) [''Plan this'']
        \<lparr>ext = id 0, sleeps = []\<rparr>
      = (Inl (?quota ! (3 - 1)),
         \<lparr>ext = id 3, sleeps = [] @ map (\<lambda>k. min (2 ^ k) 60) [0..<3 - 1]\<rparr>)"
    using generate_completion_exhausted
      [where messages = "[''Plan this'']" and c = gemini_client and n = 3
         and call = "raising ?quota" and st = id and es = "\<lambda>k. ?quota ! k"
         and py_str = scenario_str and sl = "[]",
       THEN conjunct2]
      calls [of ?quota] by_keyword
    by (simp add: gemini_client_def)
  have last_text: "exn_str (?typed ! (3 - 1)) = ''The server is overloaded''"
    by (simp add: server_error_def)
  from typed_run keyword_run show ?thesis
    unfolding three range last_text by simp
qed

text \<open>
  C9 as claimed fails: the Gemini client with the default of three attempts, each of
  which meets the provider's quota error, a transient error. What
  \<^verbatim>\<open>generate_completion\<close> raises is that error itself and no terminal error.
\<close>

theorem gemini_reraises_counterexample:
  "is_retryable quota_error
   \<and> generate_completion scenario_str gemini_client
       (raising [quota_error, quota_error, quota_error]) [''Plan this''] \<lparr>ext = 0, sleeps = []\<rparr>
     = (Inl (Exn OtherException ''429 Resource has been exhausted (e.g. check quota).''),
        \<lparr>ext = 3, sleeps = [1, 2]\<rparr>)"
  by code_simp

end
